theory Spec2Isabelle
  imports Complex_Main
begin

section \<open>Training utilities of tf2-gnn (tf2\_gnn/utils/training\_utils.py)\<close>

text \<open>
  The module resolves hyperparameters for a dataset and a model from layered sources
  and drives a train / validate / early-stop loop. The dataset and model classes, the
  task registry and the files it reads are collaborators outside the module: they
  appear here as the fields of a record of functions, so every theorem holds for
  whatever those collaborators compute.
\<close>

subsection \<open>Hyperparameter mappings\<close>

text \<open>
  A hyperparameter value is a JSON-compatible Python value. A hyperparameter mapping
  is a Python \<open>dict\<close> with string keys; \<open>dict.update\<close> overwrites the keys of its
  argument and keeps every other key, which is map addition.
\<close>

datatype hval =
    HNone
  | HBool bool
  | HInt int
  | HFloat real
  | HStr string
  | HList "hval list"
  | HDict "(string \<times> hval) list"

type_synonym hypers = "string \<rightharpoonup> hval"

type_synonym class_id = string

definition dict_update :: "hypers \<Rightarrow> hypers \<Rightarrow> hypers" where
  "dict_update d other = d ++ other"

text \<open>\<open>d.get(key, {})\<close> on a dictionary of hyperparameter groups.\<close>

definition dict_get_or_empty :: "(string \<rightharpoonup> hypers) \<Rightarrow> string \<Rightarrow> hypers" where
  "dict_get_or_empty d key = (case d key of None \<Rightarrow> Map.empty | Some v \<Rightarrow> v)"

subsection \<open>Errors\<close>

text \<open>
  Every exception that can leave the module is a value of \<open>error\<close>; a function that can
  raise returns \<open>error + 'a\<close> with \<open>Inl\<close> for the exception.
\<close>

datatype error =
    UnknownTask
  | KeyError string
  | OSError string
  | JSONDecodeError string
  | UnpicklingError string
  | HyperparameterCoercionError string

subsection \<open>Floats\<close>

text \<open>
  A Python \<open>float\<close> as far as comparisons see it: not-a-number, the two infinities, or
  a number. \<open>float_lt\<close> is Python's \<open><\<close>: every comparison with a NaN is false, and on
  the other values it is the usual strict order.
\<close>

datatype pyfloat = NaN | NegInf | Num real | PosInf

fun float_lt :: "pyfloat \<Rightarrow> pyfloat \<Rightarrow> bool" where
  "float_lt NaN b = False"
| "float_lt a NaN = False"
| "float_lt a NegInf = False"
| "float_lt NegInf b = True"
| "float_lt PosInf b = False"
| "float_lt (Num x) PosInf = True"
| "float_lt (Num x) (Num y) = (x < y)"

subsection \<open>Strings and paths\<close>

text \<open>\<open>"%s" % x\<close> for an optional string: \<open>None\<close> prints as \<open>None\<close>.\<close>

definition py_str :: "string option \<Rightarrow> string" where
  "py_str s = (case s of None \<Rightarrow> ''None'' | Some t \<Rightarrow> t)"

text \<open>
  \<open>os.path.join(a, b)\<close> of \<open>posixpath\<close>: an absolute second component replaces the
  first; an empty first component, or one that ends with a separator, gets no extra
  separator.
\<close>

definition os_path_join :: "string \<Rightarrow> string \<Rightarrow> string" where
  "os_path_join a b =
     (if b \<noteq> [] \<and> hd b = CHR ''/'' then b
      else if a = [] \<or> last a = CHR ''/'' then a @ b
      else a @ ''/'' @ b)"

subsection \<open>Datasets, models and the world around them\<close>

datatype data_fold = TRAIN | VALIDATION | TEST

text \<open>
  A dataset object holds its class and the parameter mapping it was constructed from
  (\<open>dataset._params\<close>), and remembers the \<open>load_data\<close> calls it received.
\<close>

record dataset =
  ds_class :: class_id
  ds_params :: hypers
  ds_loaded :: "(string \<times> data_fold set option) list"

text \<open>
  A model object holds its class, the parameter mapping it was constructed from
  (\<open>model._params\<close>) and the number of edge types it was given. Its weights are state
  and live in the machine state below.
\<close>

record model =
  m_class :: class_id
  m_params :: hypers
  m_num_edge_types :: nat

text \<open>A value that \<open>save_model\<close> pickles: a class or a parameter mapping.\<close>

datatype pval = PClass class_id | PParams hypers

text \<open>
  What the module reads from outside itself: the task registry of \<open>task_utils\<close>
  (\<open>Inl\<close> when the task is not registered), the classes' default hyperparameters,
  the directory of the module, the file system as far as the JSON files of tuned
  defaults go, and the JSON parser. The parser's results are dictionaries, as the
  parameters annotated \<open>Dict[str, Any]\<close> require of it.
\<close>

record world =
  task_name_to_dataset_class :: "string option \<Rightarrow> error + (class_id \<times> hypers)"
  task_name_to_model_class :: "string option \<Rightarrow> error + (class_id \<times> hypers)"
  dataset_default_hyperparameters :: "class_id \<Rightarrow> hypers"
  model_default_hyperparameters :: "class_id \<Rightarrow> string option \<Rightarrow> hypers"
  dataset_num_edge_types :: "dataset \<Rightarrow> nat"
  module_dir :: string
  os_path_exists :: "string \<Rightarrow> bool"
  json_load :: "string \<Rightarrow> error + (string \<rightharpoonup> hypers)"
  json_loads :: "string \<Rightarrow> error + hypers"

subsection \<open>make\_run\_id\<close>

text \<open>
  \<open>now\<close> is the value of \<open>time.strftime("%Y-%m-%d_%H-%M-%S")\<close> at the call.
\<close>

definition make_run_id :: "string \<Rightarrow> string \<Rightarrow> string option \<Rightarrow> string \<Rightarrow> string" where
  "make_run_id model_name task_name run_name now =
     (case run_name of
        Some r \<Rightarrow> r
      | None \<Rightarrow> model_name @ ''_'' @ task_name @ ''__'' @ now)"

subsection \<open>get\_dataset\<close>

text \<open>
  \<open>if not dataset_cls\<close>: the class is looked up in the registry and the parameters
  start from the class defaults, updated with the task's default overrides and then
  with the tuned task+model defaults; otherwise the loaded parameters are the base.
  The CLI overrides are applied in both branches, and the class is instantiated with
  the result.
\<close>

definition get_dataset ::
  "world \<Rightarrow> string option \<Rightarrow> class_id option \<Rightarrow> hypers \<Rightarrow> hypers \<Rightarrow> hypers \<Rightarrow> error + dataset"
where
  "get_dataset W task_name dataset_cls dataset_model_optimised_default_hyperparameters
       loaded_data_hyperparameters cli_data_hyperparameter_overrides =
     (case dataset_cls of
        None \<Rightarrow>
          (case task_name_to_dataset_class W task_name of
             Inl e \<Rightarrow> Inl e
           | Inr (cls, dataset_default_hyperparameter_overrides) \<Rightarrow>
               (let dataset_params = dataset_default_hyperparameters W cls;
                    dataset_params = dict_update dataset_params dataset_default_hyperparameter_overrides;
                    dataset_params = dict_update dataset_params dataset_model_optimised_default_hyperparameters;
                    dataset_params = dict_update dataset_params cli_data_hyperparameter_overrides
                in Inr \<lparr>ds_class = cls, ds_params = dataset_params, ds_loaded = []\<rparr>))
      | Some cls \<Rightarrow>
          (let dataset_params = loaded_data_hyperparameters;
               dataset_params = dict_update dataset_params cli_data_hyperparameter_overrides
           in Inr \<lparr>ds_class = cls, ds_params = dataset_params, ds_loaded = []\<rparr>))"

subsection \<open>Search overrides (azure\_ml/utils.py)\<close>

text \<open>
  Decimal numerals as the coercion reads them: an optional sign, digits, and for a
  float an optional fractional part.
\<close>

definition is_digit :: "char \<Rightarrow> bool" where
  "is_digit c = (48 \<le> (of_char c :: nat) \<and> (of_char c :: nat) \<le> 57)"

definition digit_value :: "char \<Rightarrow> nat" where
  "digit_value c = of_char c - 48"

definition parse_digits :: "string \<Rightarrow> nat option" where
  "parse_digits s =
     (if s \<noteq> [] \<and> list_all is_digit s
      then Some (foldl (\<lambda>acc c. 10 * acc + digit_value c) 0 s)
      else None)"

definition parse_int :: "string \<Rightarrow> int option" where
  "parse_int s =
     (case s of
        [] \<Rightarrow> None
      | c # r \<Rightarrow>
          if c = CHR ''-'' then map_option (\<lambda>n. - int n) (parse_digits r)
          else if c = CHR ''+'' then map_option int (parse_digits r)
          else map_option int (parse_digits s))"

definition parse_unsigned_float :: "string \<Rightarrow> real option" where
  "parse_unsigned_float s =
     (let ip = takeWhile (\<lambda>c. c \<noteq> CHR ''.'') s;
          rest = dropWhile (\<lambda>c. c \<noteq> CHR ''.'') s
      in case rest of
           [] \<Rightarrow> map_option real (parse_digits ip)
         | _ # fp \<Rightarrow>
             (case (parse_digits ip, parse_digits fp) of
                (Some i, Some f) \<Rightarrow> Some (real i + real f / 10 ^ length fp)
              | _ \<Rightarrow> None))"

definition parse_float :: "string \<Rightarrow> real option" where
  "parse_float s =
     (case s of
        [] \<Rightarrow> None
      | c # r \<Rightarrow>
          if c = CHR ''-'' then map_option uminus (parse_unsigned_float r)
          else if c = CHR ''+'' then parse_unsigned_float r
          else parse_unsigned_float s)"

text \<open>
  Modelled from the spec: \<open>override_model_params_with_hyperdrive_params\<close> of
  \<open>azure_ml/utils.py\<close>, which \<open>get_model\<close> imports and calls and whose source is not in
  the repository's files here. The spec's words: search overrides are a mapping from
  parameter name to string value, applied "with per-key type coercion driven by the
  current value's type in the mapping (string "true"/"false" to boolean, numeric
  strings to int/float preserving the prior type, else left as string)"; resolution
  "fails with HyperparameterCoercionError if a search override cannot be coerced to
  the prior type". The overrides are kept as a list of pairs in the dictionary's
  iteration order, since the first failing key decides the error.
\<close>

definition coerce_hyperdrive_value :: "hval option \<Rightarrow> string \<Rightarrow> error + hval" where
  "coerce_hyperdrive_value prior v =
     (case prior of
        Some (HBool _) \<Rightarrow>
          if v = ''true'' then Inr (HBool True)
          else if v = ''false'' then Inr (HBool False)
          else Inl (HyperparameterCoercionError v)
      | Some (HInt _) \<Rightarrow>
          (case parse_int v of
             Some i \<Rightarrow> Inr (HInt i)
           | None \<Rightarrow> Inl (HyperparameterCoercionError v))
      | Some (HFloat _) \<Rightarrow>
          (case parse_float v of
             Some x \<Rightarrow> Inr (HFloat x)
           | None \<Rightarrow> Inl (HyperparameterCoercionError v))
      | _ \<Rightarrow> Inr (HStr v))"

fun override_model_params_with_hyperdrive_params ::
  "hypers \<Rightarrow> (string \<times> string) list \<Rightarrow> error + hypers"
where
  "override_model_params_with_hyperdrive_params params [] = Inr params"
| "override_model_params_with_hyperdrive_params params ((name, v) # rest) =
     (case coerce_hyperdrive_value (params name) v of
        Inl e \<Rightarrow> Inl e
      | Inr x \<Rightarrow> override_model_params_with_hyperdrive_params (params(name \<mapsto> x)) rest)"

subsection \<open>get\_model\<close>

text \<open>
  The first part of \<open>get_model\<close>: the class and the base parameter mapping. Without a
  class the registry is asked, the defaults of the class are taken, the name of the
  message passing implementation is stored under its reserved key, and the task's
  default overrides and the tuned defaults are applied; with a class the loaded
  parameters are the base.
\<close>

definition msg_passing_value :: "string option \<Rightarrow> hval" where
  "msg_passing_value m = (case m of None \<Rightarrow> HNone | Some s \<Rightarrow> HStr s)"

definition get_model_base ::
  "world \<Rightarrow> string option \<Rightarrow> string option \<Rightarrow> class_id option \<Rightarrow> hypers \<Rightarrow> hypers
     \<Rightarrow> error + (class_id \<times> hypers)"
where
  "get_model_base W msg_passing_implementation task_name model_cls
       dataset_model_optimised_default_hyperparameters loaded_model_hyperparameters =
     (case model_cls of
        None \<Rightarrow>
          (case task_name_to_model_class W task_name of
             Inl e \<Rightarrow> Inl e
           | Inr (cls, model_default_hyperparameter_overrides) \<Rightarrow>
               (let model_params = model_default_hyperparameters W cls msg_passing_implementation;
                    model_params = model_params(''gnn_message_calculation_class'' \<mapsto>
                                     msg_passing_value msg_passing_implementation);
                    model_params = dict_update model_params model_default_hyperparameter_overrides;
                    model_params = dict_update model_params dataset_model_optimised_default_hyperparameters
                in Inr (cls, model_params)))
      | Some cls \<Rightarrow> Inr (cls, loaded_model_hyperparameters))"

text \<open>
  \<open>get_model\<close>: the CLI overrides are applied to the base mapping, then the search
  overrides, and the class is instantiated with the result and the dataset's number of
  edge types.
\<close>

definition get_model ::
  "world \<Rightarrow> string option \<Rightarrow> string option \<Rightarrow> class_id option \<Rightarrow> dataset \<Rightarrow> hypers \<Rightarrow> hypers
     \<Rightarrow> hypers \<Rightarrow> (string \<times> string) list \<Rightarrow> error + model"
where
  "get_model W msg_passing_implementation task_name model_cls dataset
       dataset_model_optimised_default_hyperparameters loaded_model_hyperparameters
       cli_model_hyperparameter_overrides hyperdrive_hyperparameter_overrides =
     (case get_model_base W msg_passing_implementation task_name model_cls
             dataset_model_optimised_default_hyperparameters loaded_model_hyperparameters of
        Inl e \<Rightarrow> Inl e
      | Inr (cls, model_params) \<Rightarrow>
          (let model_params = dict_update model_params cli_model_hyperparameter_overrides
           in case override_model_params_with_hyperdrive_params model_params
                     hyperdrive_hyperparameter_overrides of
                Inl e \<Rightarrow> Inl e
              | Inr model_params \<Rightarrow>
                  Inr \<lparr>m_class = cls, m_params = model_params,
                       m_num_edge_types = dataset_num_edge_types W dataset\<rparr>))"

subsection \<open>get\_model\_and\_dataset\<close>

text \<open>
  A pickled checkpoint is a dictionary from field names to pickled values. Reading a
  class under a class key: a missing key is \<open>KeyError\<close>; the checkpoints considered hold
  classes under the class keys and mappings under the parameter keys, as \<open>save_model\<close>
  writes them, and an entry of the other kind is reported as \<open>UnpicklingError\<close>.
\<close>

definition load_class :: "(string \<rightharpoonup> pval) \<Rightarrow> string \<Rightarrow> error + class_id" where
  "load_class data_to_load key =
     (case data_to_load key of
        None \<Rightarrow> Inl (KeyError key)
      | Some (PClass c) \<Rightarrow> Inr c
      | Some (PParams _) \<Rightarrow> Inl (UnpicklingError key))"

text \<open>\<open>data_to_load.get(key, {})\<close> for a parameter mapping.\<close>

definition load_params :: "(string \<rightharpoonup> pval) \<Rightarrow> string \<Rightarrow> error + hypers" where
  "load_params data_to_load key =
     (case data_to_load key of
        None \<Rightarrow> Inr Map.empty
      | Some (PParams p) \<Rightarrow> Inr p
      | Some (PClass _) \<Rightarrow> Inl (UnpicklingError key))"

text \<open>
  The file of tuned task+model defaults, and the block that loads it (the \<open>else\<close>
  branch of \<open>if trained_model_file\<close>): the file is read only when it exists, and
  \<open>json_load\<close> is then the only step that can fail.
\<close>

definition task_model_default_hypers_file :: "world \<Rightarrow> string option \<Rightarrow> string option \<Rightarrow> string" where
  "task_model_default_hypers_file W task_name msg_passing_implementation =
     os_path_join (os_path_join (module_dir W) ''default_hypers'')
       (py_str task_name @ ''_'' @ py_str msg_passing_implementation @ ''.json'')"

definition load_default_task_model_hypers ::
  "world \<Rightarrow> string option \<Rightarrow> string option \<Rightarrow> error + (string \<rightharpoonup> hypers)"
where
  "load_default_task_model_hypers W task_name msg_passing_implementation =
     (let task_model_default_hypers_file =
            task_model_default_hypers_file W task_name msg_passing_implementation
      in if os_path_exists W task_model_default_hypers_file
         then json_load W task_model_default_hypers_file
         else Inr Map.empty)"

text \<open>\<open>x or "{}"\<close> for an optional string: \<open>None\<close> and the empty string are falsy.\<close>

definition or_empty_object :: "string option \<Rightarrow> string" where
  "or_empty_object s = (case s of None \<Rightarrow> ''{}'' | Some t \<Rightarrow> if t = [] then ''{}'' else t)"

text \<open>\<open>if trained_model_file\<close>: a path that is given and not empty.\<close>

definition truthy :: "string option \<Rightarrow> bool" where
  "truthy s = (case s of None \<Rightarrow> False | Some t \<Rightarrow> t \<noteq> [])"

text \<open>
  The first half of \<open>get_model_and_dataset\<close>: what is loaded from the checkpoint, the
  two classes, and the tuned defaults. With a saved model the checkpoint is unpickled
  from the file (\<open>pickles\<close> are the pickle files that exist) and the tuned defaults are
  empty; without one nothing is loaded, no class is fixed and the tuned defaults are
  read from their file.
\<close>

definition load_sources ::
  "world \<Rightarrow> (string \<rightharpoonup> (string \<rightharpoonup> pval)) \<Rightarrow> string option \<Rightarrow> string option \<Rightarrow> string option
     \<Rightarrow> error + ((string \<rightharpoonup> pval) \<times> class_id option \<times> class_id option \<times> (string \<rightharpoonup> hypers))"
where
  "load_sources W pickles task_name msg_passing_implementation trained_model_file =
     (if truthy trained_model_file then
        (case pickles (the trained_model_file) of
           None \<Rightarrow> Inl (OSError (the trained_model_file))
         | Some data_to_load \<Rightarrow>
             (case load_class data_to_load ''model_class'' of
                Inl e \<Rightarrow> Inl e
              | Inr model_class \<Rightarrow>
                  (case load_class data_to_load ''dataset_class'' of
                     Inl e \<Rightarrow> Inl e
                   | Inr dataset_class \<Rightarrow>
                       Inr (data_to_load, Some model_class, Some dataset_class, Map.empty))))
      else
        (case load_default_task_model_hypers W task_name msg_passing_implementation of
           Inl e \<Rightarrow> Inl e
         | Inr default_task_model_hypers \<Rightarrow>
             Inr (Map.empty, None, None, default_task_model_hypers)))"

text \<open>
  \<open>get_model_and_dataset\<close>. The arguments of each call are evaluated before the call,
  so the CLI overrides of the dataset are parsed before \<open>get_dataset\<close> runs and those
  of the model before \<open>get_model\<close> runs. The dataset loads its data last. Messages
  printed to standard output are left out.
\<close>

definition get_model_and_dataset ::
  "world \<Rightarrow> (string \<rightharpoonup> (string \<rightharpoonup> pval)) \<Rightarrow> string option \<Rightarrow> string option \<Rightarrow> string
     \<Rightarrow> string option \<Rightarrow> string option \<Rightarrow> string option \<Rightarrow> (string \<times> string) list
     \<Rightarrow> data_fold set option \<Rightarrow> error + (dataset \<times> model)"
where
  "get_model_and_dataset W pickles task_name msg_passing_implementation data_path
       trained_model_file cli_data_hyperparameter_overrides cli_model_hyperparameter_overrides
       hyperdrive_hyperparameter_overrides folds_to_load =
     (case load_sources W pickles task_name msg_passing_implementation trained_model_file of
        Inl e \<Rightarrow> Inl e
      | Inr (data_to_load, model_class, dataset_class, default_task_model_hypers) \<Rightarrow>
     (case load_params data_to_load ''dataset_params'' of
        Inl e \<Rightarrow> Inl e
      | Inr loaded_data_hyperparameters \<Rightarrow>
     (case json_loads W (or_empty_object cli_data_hyperparameter_overrides) of
        Inl e \<Rightarrow> Inl e
      | Inr cli_data \<Rightarrow>
     (case get_dataset W task_name dataset_class
             (dict_get_or_empty default_task_model_hypers ''task_params'')
             loaded_data_hyperparameters cli_data of
        Inl e \<Rightarrow> Inl e
      | Inr dataset \<Rightarrow>
     (case load_params data_to_load ''model_params'' of
        Inl e \<Rightarrow> Inl e
      | Inr loaded_model_hyperparameters \<Rightarrow>
     (case json_loads W (or_empty_object cli_model_hyperparameter_overrides) of
        Inl e \<Rightarrow> Inl e
      | Inr cli_model \<Rightarrow>
     (case get_model W msg_passing_implementation task_name model_class dataset
             (dict_get_or_empty default_task_model_hypers ''model_params'')
             loaded_model_hyperparameters cli_model hyperdrive_hyperparameter_overrides of
        Inl e \<Rightarrow> Inl e
      | Inr model \<Rightarrow>
          Inr (dataset\<lparr>ds_loaded := ds_loaded dataset @ [(data_path, folds_to_load)]\<rparr>,
               model))))))))"

subsection \<open>The machine: weights, files and the trace of effects\<close>

text \<open>
  Log lines carry their numbers instead of the formatted text. The elapsed wall-clock
  time of the last line is left out.
\<close>

datatype log_msg =
    SettingRandomSeed int
  | DatasetParameters hypers
  | ModelParameters hypers
  | InitialValidMetric pyfloat
  | EpochHeader int
  | TrainSummary pyfloat pyfloat pyfloat
  | ValidSummary pyfloat pyfloat pyfloat
  | BestEpochSoFar pyfloat pyfloat
  | StoppingTraining int
  | TrainingTook pyfloat
  | RunningOnTest
  | LoadingData string
  | RestoringBest string
  | TestMetric pyfloat

text \<open>
  The effects a run has, in order: a pass over a fold (\<open>run_one_epoch\<close>, with its
  \<open>training\<close> flag), the message \<open>save_model\<close> prints, a line given to the log sink (the
  sink is named by the file it appends to), a metric sent to the AML run.
\<close>

datatype event =
    RunOneEpoch data_fold bool
  | StoredModel string
  | LogLine string log_msg
  | AmlLog string pyfloat

text \<open>
  The mutable state: the weights of the model object, the pickle files and the weight
  files on disk (by path), and the trace of effects so far.
\<close>

record 'w machine =
  weights :: 'w
  pickle_files :: "string \<rightharpoonup> (string \<rightharpoonup> pval)"
  weight_files :: "string \<rightharpoonup> 'w"
  trace :: "event list"

definition emit :: "event \<Rightarrow> ('w, 'z) machine_scheme \<Rightarrow> ('w, 'z) machine_scheme" where
  "emit e st = st\<lparr>trace := trace st @ [e]\<rparr>"

text \<open>
  The model and dataset collaborators: \<open>build\<close> initialises the weights,
  \<open>run_one_epoch\<close> makes one pass over a fold from the current weights and returns the
  new weights with loss, speed and raw results, \<open>compute_epoch_metrics\<close> reduces raw
  results to the scalar metric. Loss, speed and metric are floats and may be NaN.
\<close>

record ('w, 'r) engine =
  build :: "model \<Rightarrow> dataset \<Rightarrow> 'w"
  run_one_epoch :: "model \<Rightarrow> dataset \<Rightarrow> data_fold \<Rightarrow> bool \<Rightarrow> 'w \<Rightarrow> 'w \<times> pyfloat \<times> pyfloat \<times> 'r"
  compute_epoch_metrics :: "model \<Rightarrow> 'r \<Rightarrow> pyfloat"

subsection \<open>save\_model\<close>

definition data_to_store :: "model \<Rightarrow> dataset \<Rightarrow> (string \<rightharpoonup> pval)" where
  "data_to_store model dataset =
     [''model_class'' \<mapsto> PClass (m_class model),
      ''model_params'' \<mapsto> PParams (m_params model),
      ''dataset_class'' \<mapsto> PClass (ds_class dataset),
      ''dataset_params'' \<mapsto> PParams (ds_params dataset)]"

text \<open>
  The dictionary is pickled to \<open>save_file\<close>, the weights of the model are saved under
  the same path, and a message is printed.
\<close>

definition save_model ::
  "string \<Rightarrow> model \<Rightarrow> dataset \<Rightarrow> ('w, 'z) machine_scheme \<Rightarrow> ('w, 'z) machine_scheme"
where
  "save_model save_file model dataset st =
     emit (StoredModel save_file)
       (st\<lparr>pickle_files := (pickle_files st)(save_file \<mapsto> data_to_store model dataset),
           weight_files := (weight_files st)(save_file \<mapsto> weights st)\<rparr>)"

text \<open>\<open>model.load_weights(path)\<close>: fails when nothing was saved under the path.\<close>

definition load_weights ::
  "string \<Rightarrow> ('w, 'z) machine_scheme \<Rightarrow> error + ('w, 'z) machine_scheme"
where
  "load_weights path st =
     (case weight_files st path of
        None \<Rightarrow> Inl (OSError path)
      | Some w \<Rightarrow> Inr (st\<lparr>weights := w\<rparr>))"

subsection \<open>train\<close>

text \<open>
  The local variables of \<open>train\<close> next to the machine: the best validation metric, the
  epoch it was seen in, the loop variable \<open>epoch\<close> (0 before the first iteration) and
  whether the loop was left by \<open>break\<close>.
\<close>

record 'w train_state = "'w machine" +
  best_valid_metric :: pyfloat
  best_valid_epoch :: int
  epoch :: int
  stopped :: bool

text \<open>
  Before the loop: one validation pass, its metric as the best so far, the first
  \<open>save_model\<close>, and epoch 0 as the best epoch.
\<close>

definition train_init ::
  "('w, 'r) engine \<Rightarrow> model \<Rightarrow> dataset \<Rightarrow> string \<Rightarrow> string \<Rightarrow> 'w machine \<Rightarrow> 'w train_state"
where
  "train_init E model dataset log_file save_file st =
     (case run_one_epoch E model dataset VALIDATION False (weights st) of
        (w, _, _, initial_valid_results) \<Rightarrow>
          (let st = emit (RunOneEpoch VALIDATION False) (st\<lparr>weights := w\<rparr>);
               best_valid_metric = compute_epoch_metrics E model initial_valid_results;
               st = emit (LogLine log_file (InitialValidMetric best_valid_metric)) st;
               st = save_model save_file model dataset st
           in \<lparr>weights = weights st, pickle_files = pickle_files st,
               weight_files = weight_files st, trace = trace st,
               best_valid_metric = best_valid_metric, best_valid_epoch = 0,
               epoch = 0, stopped = False\<rparr>))"

text \<open>The AML run, when there is one, is sent the two metrics and the two speeds.\<close>

definition aml_log_epoch ::
  "bool \<Rightarrow> pyfloat \<Rightarrow> pyfloat \<Rightarrow> pyfloat \<Rightarrow> pyfloat \<Rightarrow> ('w, 'z) machine_scheme
     \<Rightarrow> ('w, 'z) machine_scheme"
where
  "aml_log_epoch aml_run train_metric train_speed valid_metric valid_speed st =
     (if aml_run then
        emit (AmlLog ''valid_speed'' valid_speed)
          (emit (AmlLog ''task_valid_metric'' valid_metric)
            (emit (AmlLog ''train_speed'' train_speed)
              (emit (AmlLog ''task_train_metric'' train_metric) st)))
      else st)"

text \<open>
  The passes of one iteration of the loop: a training pass, then a validation pass,
  each logged. The result is the validation metric and the new state.
\<close>

definition epoch_passes ::
  "('w, 'r) engine \<Rightarrow> model \<Rightarrow> dataset \<Rightarrow> string \<Rightarrow> bool \<Rightarrow> int \<Rightarrow> 'w train_state
     \<Rightarrow> pyfloat \<times> 'w train_state"
where
  "epoch_passes E model dataset log_file aml_run ep st =
     (let st = emit (LogLine log_file (EpochHeader ep)) (st\<lparr>epoch := ep\<rparr>)
      in case run_one_epoch E model dataset TRAIN True (weights st) of
        (w, train_loss, train_speed, train_results) \<Rightarrow>
     (let st = emit (RunOneEpoch TRAIN True) (st\<lparr>weights := w\<rparr>);
          train_metric = compute_epoch_metrics E model train_results;
          st = emit (LogLine log_file (TrainSummary train_loss train_metric train_speed)) st
      in case run_one_epoch E model dataset VALIDATION False (weights st) of
        (w, valid_loss, valid_speed, valid_results) \<Rightarrow>
     (let st = emit (RunOneEpoch VALIDATION False) (st\<lparr>weights := w\<rparr>);
          valid_metric = compute_epoch_metrics E model valid_results;
          st = emit (LogLine log_file (ValidSummary valid_loss valid_metric valid_speed)) st;
          st = aml_log_epoch aml_run train_metric train_speed valid_metric valid_speed st
      in (valid_metric, st))))"

text \<open>
  One iteration of the loop. After the passes: a metric strictly below the best is
  saved and becomes the best; otherwise, when \<open>patience\<close> epochs or more have passed
  since the best epoch, the loop is left.
\<close>

definition train_epoch ::
  "('w, 'r) engine \<Rightarrow> model \<Rightarrow> dataset \<Rightarrow> string \<Rightarrow> string \<Rightarrow> int \<Rightarrow> bool \<Rightarrow> int
     \<Rightarrow> 'w train_state \<Rightarrow> 'w train_state"
where
  "train_epoch E model dataset log_file save_file patience aml_run ep st =
     (case epoch_passes E model dataset log_file aml_run ep st of
        (valid_metric, st) \<Rightarrow>
          if float_lt valid_metric (best_valid_metric st) then
            (let st = emit (LogLine log_file
                              (BestEpochSoFar valid_metric (best_valid_metric st))) st;
                 st = save_model save_file model dataset st
             in st\<lparr>best_valid_metric := valid_metric, best_valid_epoch := ep\<rparr>)
          else if ep - best_valid_epoch st \<ge> patience then
            (let st = emit (LogLine log_file (StoppingTraining patience)) st;
                 st = emit (LogLine log_file (TrainingTook (best_valid_metric st))) st
             in st\<lparr>stopped := True\<rparr>)
          else st)"

text \<open>The \<open>for\<close> loop over the epochs of the range, left at the first \<open>break\<close>.\<close>

fun train_loop ::
  "('w, 'r) engine \<Rightarrow> model \<Rightarrow> dataset \<Rightarrow> string \<Rightarrow> string \<Rightarrow> int \<Rightarrow> bool \<Rightarrow> int list
     \<Rightarrow> 'w train_state \<Rightarrow> 'w train_state"
where
  "train_loop E model dataset log_file save_file patience aml_run [] st = st"
| "train_loop E model dataset log_file save_file patience aml_run (ep # rest) st =
     (let st = train_epoch E model dataset log_file save_file patience aml_run ep st
      in if stopped st then st
         else train_loop E model dataset log_file save_file patience aml_run rest st)"

text \<open>
  \<open>train\<close> returns the path of the checkpoint; the final state is returned with it.
  The range of the loop is \<open>range(1, max_epochs + 1)\<close>.
\<close>

definition train ::
  "('w, 'r) engine \<Rightarrow> model \<Rightarrow> dataset \<Rightarrow> string \<Rightarrow> string \<Rightarrow> int \<Rightarrow> int \<Rightarrow> string \<Rightarrow> bool
     \<Rightarrow> 'w machine \<Rightarrow> string \<times> 'w train_state"
where
  "train E model dataset log_file run_id max_epochs patience save_dir aml_run st =
     (let save_file = os_path_join save_dir (run_id @ ''_best.pkl'')
      in (save_file,
          train_loop E model dataset log_file save_file patience aml_run [1..max_epochs]
            (train_init E model dataset log_file save_file st)))"

subsection \<open>run\_train\_from\_args\<close>

text \<open>
  The parsed command line, as far as \<open>run_train_from_args\<close> reads it (the field for
  \<open>args.x\<close> is \<open>arg_x\<close>; \<open>azure_info\<close> and \<open>quiet\<close> only reach the collaborators).
\<close>

record args =
  arg_model :: string
  arg_task :: string
  arg_data_path :: string
  arg_save_dir :: string
  arg_model_param_override :: "string option"
  arg_data_param_override :: "string option"
  arg_max_epochs :: int
  arg_patience :: int
  arg_random_seed :: int
  arg_run_name :: "string option"
  arg_load_saved_model :: "string option"
  arg_run_test :: bool
  arg_azureml_logging :: bool

text \<open>What a run leaves behind, for the theorems to speak about.\<close>

record 'w run_result =
  res_run_id :: string
  res_log_file :: string
  res_trained_model_path :: string
  res_dataset :: dataset
  res_model :: model
  res_state :: "'w train_state"

text \<open>
  The block under \<open>if args.run_test\<close>: the test fold is loaded, the weights of the best
  checkpoint are restored, one pass over the test fold is made and its metric logged.
\<close>

definition run_test ::
  "('w, 'r) engine \<Rightarrow> model \<Rightarrow> dataset \<Rightarrow> string \<Rightarrow> bool \<Rightarrow> string \<Rightarrow> string \<Rightarrow> 'w train_state
     \<Rightarrow> error + (dataset \<times> 'w train_state)"
where
  "run_test E model dataset log_file aml_run data_path trained_model_path st =
     (let st = emit (LogLine log_file RunningOnTest) st;
          st = emit (LogLine log_file (LoadingData data_path)) st;
          dataset = dataset\<lparr>ds_loaded := ds_loaded dataset @ [(data_path, Some {TEST})]\<rparr>;
          st = emit (LogLine log_file (RestoringBest trained_model_path)) st
      in case load_weights trained_model_path st of
           Inl e \<Rightarrow> Inl e
         | Inr st \<Rightarrow>
             (case run_one_epoch E model dataset TEST False (weights st) of
                (w, _, _, test_results) \<Rightarrow>
                  (let st = emit (RunOneEpoch TEST False) (st\<lparr>weights := w\<rparr>);
                       test_metric = compute_epoch_metrics E model test_results;
                       st = emit (LogLine log_file (TestMetric test_metric)) st;
                       st = (if aml_run then emit (AmlLog ''task_test_metric'' test_metric) st
                             else st)
                   in Inr (dataset, st))))"

text \<open>
  \<open>run_train_from_args\<close>. \<open>now\<close> is the local time as \<open>make_run_id\<close> formats it. The run
  identifier is made from \<open>args.model\<close> and \<open>args.task\<close>: the call passes no run name.
  Seeding the random number generators and creating the directory leave no mark here.
\<close>

definition run_train_from_args ::
  "world \<Rightarrow> ('w, 'r) engine \<Rightarrow> args \<Rightarrow> (string \<times> string) list \<Rightarrow> string \<Rightarrow> 'w machine
     \<Rightarrow> error + 'w run_result"
where
  "run_train_from_args W E args hyperdrive_hyperparameter_overrides now st =
     (case get_model_and_dataset W (pickle_files st) (Some (arg_task args))
             (Some (arg_model args)) (arg_data_path args) (arg_load_saved_model args)
             (arg_data_param_override args) (arg_model_param_override args)
             hyperdrive_hyperparameter_overrides (Some {TRAIN, VALIDATION}) of
        Inl e \<Rightarrow> Inl e
      | Inr (dataset, model) \<Rightarrow>
     (let run_id = make_run_id (arg_model args) (arg_task args) None now;
          log_file = os_path_join (arg_save_dir args) (run_id @ ''.log'');
          st = emit (LogLine log_file (SettingRandomSeed (arg_random_seed args))) st;
          st = emit (LogLine log_file (DatasetParameters (ds_params dataset))) st;
          st = emit (LogLine log_file (ModelParameters (m_params model))) st;
          st = st\<lparr>weights := build E model dataset\<rparr>
      in case (if truthy (arg_load_saved_model args)
               then load_weights (the (arg_load_saved_model args)) st
               else Inr st) of
        Inl e \<Rightarrow> Inl e
      | Inr st \<Rightarrow>
     (case train E model dataset log_file run_id (arg_max_epochs args) (arg_patience args)
             (arg_save_dir args) (arg_azureml_logging args) st of
        (trained_model_path, ts) \<Rightarrow>
     (case (if arg_run_test args
            then run_test E model dataset log_file (arg_azureml_logging args)
                   (arg_data_path args) trained_model_path ts
            else Inr (dataset, ts)) of
        Inl e \<Rightarrow> Inl e
      | Inr (dataset, ts) \<Rightarrow>
          Inr \<lparr>res_run_id = run_id, res_log_file = log_file,
               res_trained_model_path = trained_model_path, res_dataset = dataset,
               res_model = model, res_state = ts\<rparr>))))"

subsection \<open>The validation metrics of a run\<close>

text \<open>
  For stating what the loop does over a whole run: the weights after the baseline pass
  and \<open>n\<close> full epochs, and the validation metric of epoch \<open>n\<close> (epoch 0 is the baseline
  pass), as the collaborators produce them when the loop is not left.
\<close>

definition pass_weights :: "('w, 'r) engine \<Rightarrow> model \<Rightarrow> dataset \<Rightarrow> data_fold \<Rightarrow> bool \<Rightarrow> 'w \<Rightarrow> 'w" where
  "pass_weights E model dataset fld training w =
     fst (run_one_epoch E model dataset fld training w)"

definition pass_metric :: "('w, 'r) engine \<Rightarrow> model \<Rightarrow> dataset \<Rightarrow> data_fold \<Rightarrow> bool \<Rightarrow> 'w \<Rightarrow> pyfloat" where
  "pass_metric E model dataset fld training w =
     compute_epoch_metrics E model (snd (snd (snd (run_one_epoch E model dataset fld training w))))"

text \<open>One epoch from weights \<open>w\<close>: a training pass, then a validation pass.\<close>

definition epoch_weights :: "('w, 'r) engine \<Rightarrow> model \<Rightarrow> dataset \<Rightarrow> 'w \<Rightarrow> 'w" where
  "epoch_weights E model dataset w =
     pass_weights E model dataset VALIDATION False (pass_weights E model dataset TRAIN True w)"

definition epoch_metric :: "('w, 'r) engine \<Rightarrow> model \<Rightarrow> dataset \<Rightarrow> 'w \<Rightarrow> pyfloat" where
  "epoch_metric E model dataset w =
     pass_metric E model dataset VALIDATION False (pass_weights E model dataset TRAIN True w)"

fun weights_after :: "('w, 'r) engine \<Rightarrow> model \<Rightarrow> dataset \<Rightarrow> 'w \<Rightarrow> nat \<Rightarrow> 'w" where
  "weights_after E model dataset w 0 = pass_weights E model dataset VALIDATION False w"
| "weights_after E model dataset w (Suc n) =
     epoch_weights E model dataset (weights_after E model dataset w n)"

fun valid_metric_at :: "('w, 'r) engine \<Rightarrow> model \<Rightarrow> dataset \<Rightarrow> 'w \<Rightarrow> nat \<Rightarrow> pyfloat" where
  "valid_metric_at E model dataset w 0 = pass_metric E model dataset VALIDATION False w"
| "valid_metric_at E model dataset w (Suc n) =
     epoch_metric E model dataset (weights_after E model dataset w n)"

text \<open>
  In a sequence \<open>m\<close> of metrics (epoch 0 is the baseline), the best so far is tracked
  with Python's \<open><\<close>: a metric replaces the best when it is strictly below it. Epoch
  \<open>e\<close> improves when its metric is strictly below the best of the epochs before it (the
  baseline, epoch 0, always does). The best epoch before \<open>e\<close> is the last improving
  epoch below \<open>e\<close>. The loop is due to stop at \<open>e\<close> when \<open>e\<close> does not improve and lies
  \<open>patience\<close> or more after the best epoch before it.
\<close>

fun tracked_best :: "(nat \<Rightarrow> pyfloat) \<Rightarrow> nat \<Rightarrow> pyfloat" where
  "tracked_best m 0 = m 0"
| "tracked_best m (Suc k) =
     (if float_lt (m (Suc k)) (tracked_best m k) then m (Suc k) else tracked_best m k)"

definition improves :: "(nat \<Rightarrow> pyfloat) \<Rightarrow> nat \<Rightarrow> bool" where
  "improves m e = (case e of 0 \<Rightarrow> True | Suc k \<Rightarrow> float_lt (m e) (tracked_best m k))"

definition best_epoch_before :: "(nat \<Rightarrow> pyfloat) \<Rightarrow> nat \<Rightarrow> nat" where
  "best_epoch_before m e = last (0 # filter (improves m) [0..<e])"

definition stop_due :: "(nat \<Rightarrow> pyfloat) \<Rightarrow> int \<Rightarrow> nat \<Rightarrow> bool" where
  "stop_due m patience e =
     (1 \<le> e \<and> \<not> improves m e \<and> int e - int (best_epoch_before m e) \<ge> patience)"


subsection \<open>The loop invariant\<close>

text \<open>
  What holds of the state after the baseline pass and \<open>k\<close> turns of the loop, for the
  metrics \<open>m\<close> and the weights \<open>ws\<close> of the run: the loop variable counts the epochs
  run; the best metric is the tracked best of the metrics so far and the metric of the
  best epoch, which is the last improving epoch; the loop was left exactly when a stop was due, and none
  was due before; the checkpoint file holds the record \<open>d\<close> and the weights of the
  best epoch.
\<close>

definition train_inv ::
  "(nat \<Rightarrow> pyfloat) \<Rightarrow> (nat \<Rightarrow> 'w) \<Rightarrow> int \<Rightarrow> string \<Rightarrow> (string \<rightharpoonup> pval) \<Rightarrow> nat
     \<Rightarrow> 'w train_state \<Rightarrow> bool"
where
  "train_inv m ws patience save_file d k s =
     (0 \<le> best_valid_epoch s \<and> best_valid_epoch s \<le> epoch s \<and> epoch s \<le> int k \<and>
      (\<not> stopped s \<longrightarrow> epoch s = int k) \<and>
      weights s = ws (nat (epoch s)) \<and>
      best_valid_metric s = tracked_best m (nat (epoch s)) \<and>
      best_valid_metric s = m (nat (best_valid_epoch s)) \<and>
      improves m (nat (best_valid_epoch s)) \<and>
      (\<forall>j. nat (best_valid_epoch s) < j \<and> j \<le> nat (epoch s) \<longrightarrow> \<not> improves m j) \<and>
      (stopped s \<longrightarrow> stop_due m patience (nat (epoch s))) \<and>
      (\<forall>e < nat (epoch s). \<not> stop_due m patience e) \<and>
      (\<not> stopped s \<longrightarrow> \<not> stop_due m patience (nat (epoch s))) \<and>
      pickle_files s save_file = Some d \<and>
      weight_files s save_file = Some (ws (nat (best_valid_epoch s))))"

subsection \<open>A small world and a small run\<close>

text \<open>
  Concrete collaborators on which the definitions can be evaluated. The registry knows
  one task; its dataset class has three default parameters, one of which the task
  overrides. No file of tuned defaults exists, and the JSON parser knows the empty
  object and two override strings.
\<close>

text \<open>The override string \<^verbatim>\<open>{"max_nodes_per_batch": 500}\<close>; the character 0x22 is the double quote.\<close>

definition example_override_text :: string where
  "example_override_text =
     ''{'' @ [CHR 0x22] @ ''max_nodes_per_batch'' @ [CHR 0x22] @ '': 500}''"

text \<open>The override string \<^verbatim>\<open>{"num_layers": 6}\<close>.\<close>

definition example_model_override_text :: string where
  "example_model_override_text = ''{'' @ [CHR 0x22] @ ''num_layers'' @ [CHR 0x22] @ '': 6}''"

definition example_world :: world where
  "example_world =
     \<lparr>task_name_to_dataset_class =
        (\<lambda>t. if t = Some ''PPI''
             then Inr (''PPIDataset'', [''tie_fwd_bkwd_edges'' \<mapsto> HBool False])
             else Inl UnknownTask),
      task_name_to_model_class =
        (\<lambda>t. if t = Some ''PPI''
             then Inr (''NodeMulticlassTask'', [''learning_rate'' \<mapsto> HFloat (1 / 1000)])
             else Inl UnknownTask),
      dataset_default_hyperparameters =
        (\<lambda>c. [''max_nodes_per_batch'' \<mapsto> HInt 10000,
              ''tie_fwd_bkwd_edges'' \<mapsto> HBool True,
              ''add_self_loop_edges'' \<mapsto> HBool True]),
      model_default_hyperparameters =
        (\<lambda>c m. [''learning_rate'' \<mapsto> HFloat (1 / 100), ''num_layers'' \<mapsto> HInt 4]),
      dataset_num_edge_types = (\<lambda>d. 3),
      module_dir = ''/opt/tf2_gnn/utils'',
      os_path_exists = (\<lambda>p. False),
      json_load = (\<lambda>p. Inl (JSONDecodeError p)),
      json_loads =
        (\<lambda>s. if s = ''{}'' then Inr Map.empty
             else if s = example_override_text
             then Inr [''max_nodes_per_batch'' \<mapsto> HInt 500]
             else if s = example_model_override_text
             then Inr [''num_layers'' \<mapsto> HInt 6]
             else Inl (JSONDecodeError s))\<rparr>"

text \<open>
  An engine whose weights count the training passes made and whose validation metric
  after \<open>e\<close> training passes is \<open>f e\<close>.
\<close>

definition sequence_engine :: "(nat \<Rightarrow> pyfloat) \<Rightarrow> (nat, nat) engine" where
  "sequence_engine f =
     \<lparr>build = (\<lambda>model dataset. 0),
      run_one_epoch =
        (\<lambda>model dataset fld training w. (if training then Suc w else w, Num 0, Num 0, w)),
      compute_epoch_metrics = (\<lambda>model r. f r)\<rparr>"

text \<open>The metrics 1.0 (baseline), 0.9, 0.95, 0.95, ...\<close>

definition example_metrics :: "nat \<Rightarrow> pyfloat" where
  "example_metrics e =
     (if e = 0 then Num 1 else if e = 1 then Num (9 / 10) else Num (95 / 100))"


text \<open>The metrics 1.0 (baseline), nan, 0.5, 0.6, 0.6, ...\<close>

definition nan_epoch_metrics :: "nat \<Rightarrow> pyfloat" where
  "nan_epoch_metrics e =
     (if e = 0 then Num 1 else if e = 1 then NaN else if e = 2 then Num (1 / 2)
      else Num (6 / 10))"

definition example_model :: model where
  "example_model =
     \<lparr>m_class = ''NodeMulticlassTask'',
      m_params = [''num_layers'' \<mapsto> HInt 4, ''learning_rate'' \<mapsto> HFloat (1 / 20)],
      m_num_edge_types = 3\<rparr>"

definition example_dataset :: dataset where
  "example_dataset =
     \<lparr>ds_class = ''PPIDataset'',
      ds_params = [''max_nodes_per_batch'' \<mapsto> HInt 10000,
                   ''add_self_loop_edges'' \<mapsto> HBool False],
      ds_loaded = []\<rparr>"

definition example_machine :: "nat machine" where
  "example_machine =
     \<lparr>weights = 0, pickle_files = Map.empty, weight_files = Map.empty, trace = []\<rparr>"

definition example_args :: args where
  "example_args =
     \<lparr>arg_model = ''GGNN'', arg_task = ''PPI'', arg_data_path = ''data/ppi'',
      arg_save_dir = ''trained_model'', arg_model_param_override = None,
      arg_data_param_override = None, arg_max_epochs = 2, arg_patience = 1,
      arg_random_seed = 0, arg_run_name = Some ''my-run'', arg_load_saved_model = None,
      arg_run_test = False, arg_azureml_logging = False\<rparr>"

section \<open>Properties\<close>

lemma dict_update_apply:
  "dict_update d other k = (case other k of None \<Rightarrow> d k | Some v \<Rightarrow> Some v)"
  by (simp add: dict_update_def map_add_def)

subsection \<open>Python's order on floats\<close>

lemma float_lt_irrefl: "\<not> float_lt a a"
  by (cases a) simp_all

lemma float_lt_trans: "float_lt a b \<Longrightarrow> float_lt b c \<Longrightarrow> float_lt a c"
  by (cases a; cases b; cases c) simp_all

lemma float_lt_total: "a \<noteq> NaN \<Longrightarrow> b \<noteq> NaN \<Longrightarrow> float_lt a b \<or> a = b \<or> float_lt b a"
  by (cases a; cases b) auto

lemma float_lt_not_nan: "float_lt a b \<Longrightarrow> a \<noteq> NaN \<and> b \<noteq> NaN"
  by (cases a; cases b) simp_all

subsection \<open>One epoch\<close>

lemma epoch_passes_fst:
  "fst (epoch_passes E model dataset log_file aml_run ep st) = epoch_metric E model dataset (weights st)"
  by (simp add: epoch_passes_def epoch_metric_def pass_metric_def pass_weights_def emit_def Let_def aml_log_epoch_def split: prod.splits)

lemma epoch_passes_weights:
  "weights (snd (epoch_passes E model dataset log_file aml_run ep st)) = epoch_weights E model dataset (weights st)"
  by (simp add: epoch_passes_def epoch_weights_def pass_weights_def emit_def Let_def aml_log_epoch_def split: prod.splits)

lemma epoch_passes_frame:
  "pickle_files (snd (epoch_passes E model dataset log_file aml_run ep st)) = pickle_files st"
  "weight_files (snd (epoch_passes E model dataset log_file aml_run ep st)) = weight_files st"
  "best_valid_metric (snd (epoch_passes E model dataset log_file aml_run ep st)) = best_valid_metric st"
  "best_valid_epoch (snd (epoch_passes E model dataset log_file aml_run ep st)) = best_valid_epoch st"
  "epoch (snd (epoch_passes E model dataset log_file aml_run ep st)) = ep"
  "stopped (snd (epoch_passes E model dataset log_file aml_run ep st)) = stopped st"
  by (simp_all add: epoch_passes_def emit_def Let_def aml_log_epoch_def split: prod.splits)

lemma epoch_passes_trace:
  "\<exists>rest. trace (snd (epoch_passes E model dataset log_file aml_run ep st)) =
      trace st @ LogLine log_file (EpochHeader ep) # RunOneEpoch TRAIN True # rest
    \<and> (\<forall>p. StoredModel p \<notin> set rest)"
  by (simp add: epoch_passes_def emit_def Let_def aml_log_epoch_def split: prod.splits)

lemmas epoch_passes_simps = epoch_passes_fst epoch_passes_weights epoch_passes_frame

lemma train_epoch_improved:
  assumes "float_lt (epoch_metric E model dataset (weights st)) (best_valid_metric st)"
  shows "best_valid_metric (train_epoch E model dataset log_file save_file patience aml_run ep st)
           = epoch_metric E model dataset (weights st)"
    and "best_valid_epoch (train_epoch E model dataset log_file save_file patience aml_run ep st) = ep"
    and "pickle_files (train_epoch E model dataset log_file save_file patience aml_run ep st)
           = (pickle_files st)(save_file \<mapsto> data_to_store model dataset)"
    and "weight_files (train_epoch E model dataset log_file save_file patience aml_run ep st)
           = (weight_files st)(save_file \<mapsto> epoch_weights E model dataset (weights st))"
    and "stopped (train_epoch E model dataset log_file save_file patience aml_run ep st) = stopped st"
  using assms
  by (simp_all add: train_epoch_def split_beta epoch_passes_simps save_model_def emit_def Let_def)

lemma train_epoch_stale:
  assumes "\<not> float_lt (epoch_metric E model dataset (weights st)) (best_valid_metric st)"
  shows "best_valid_metric (train_epoch E model dataset log_file save_file patience aml_run ep st)
           = best_valid_metric st"
    and "best_valid_epoch (train_epoch E model dataset log_file save_file patience aml_run ep st)
           = best_valid_epoch st"
    and "pickle_files (train_epoch E model dataset log_file save_file patience aml_run ep st)
           = pickle_files st"
    and "weight_files (train_epoch E model dataset log_file save_file patience aml_run ep st)
           = weight_files st"
    and "stopped (train_epoch E model dataset log_file save_file patience aml_run ep st)
           = (stopped st \<or> patience \<le> ep - best_valid_epoch st)"
  using assms
  by (simp_all add: train_epoch_def split_beta epoch_passes_simps save_model_def emit_def Let_def)

lemma train_epoch_weights:
  "weights (train_epoch E model dataset log_file save_file patience aml_run ep st)
     = epoch_weights E model dataset (weights st)"
  "epoch (train_epoch E model dataset log_file save_file patience aml_run ep st) = ep"
  by (simp_all add: train_epoch_def split_beta epoch_passes_simps save_model_def emit_def Let_def)

lemma train_epoch_trace:
  "\<exists>rest. trace (train_epoch E model dataset log_file save_file patience aml_run ep st) =
      trace st @ LogLine log_file (EpochHeader ep) # RunOneEpoch TRAIN True # rest"
proof -
  obtain rest where r: "trace (snd (epoch_passes E model dataset log_file aml_run ep st)) =
      trace st @ LogLine log_file (EpochHeader ep) # RunOneEpoch TRAIN True # rest"
    using epoch_passes_trace by blast
  show ?thesis
    by (simp add: train_epoch_def split_beta save_model_def emit_def Let_def r)
qed

lemma train_epoch_stale_trace:
  assumes "\<not> float_lt (epoch_metric E model dataset (weights st)) (best_valid_metric st)"
  shows "\<exists>rest. trace (train_epoch E model dataset log_file save_file patience aml_run ep st) =
      trace st @ rest \<and> (\<forall>p. StoredModel p \<notin> set rest)"
proof -
  obtain rest where r: "trace (snd (epoch_passes E model dataset log_file aml_run ep st)) =
      trace st @ LogLine log_file (EpochHeader ep) # RunOneEpoch TRAIN True # rest"
     and n: "\<forall>p. StoredModel p \<notin> set rest"
    using epoch_passes_trace by blast
  show ?thesis using assms n
    by (simp add: train_epoch_def split_beta save_model_def emit_def Let_def r epoch_passes_simps)
qed

subsection \<open>The sequence of metrics and the loop\<close>

lemma improves_0: "improves m 0"
  by (simp add: improves_def)

lemma improves_Suc: "improves m (Suc k) \<longleftrightarrow> float_lt (m (Suc k)) (tracked_best m k)"
  by (simp add: improves_def)

lemma best_epoch_before_eq:
  assumes "b \<le> n" and "improves m b" and "\<And>j. b < j \<Longrightarrow> j \<le> n \<Longrightarrow> \<not> improves m j"
  shows "best_epoch_before m (Suc n) = b"
proof -
  define d where "d = n - b"
  have d: "Suc n = b + Suc d"
    using assms(1) by (simp add: d_def)
  have "[0..<b + Suc d] = [0..<b] @ [b..<b + Suc d]"
    by (rule upt_add_eq_append) simp
  moreover have "[b..<b + Suc d] = b # [Suc b..<b + Suc d]"
    by (rule upt_conv_Cons) simp
  ultimately have split: "[0..<Suc n] = [0..<b] @ b # [Suc b..<Suc n]"
    using d by simp
  have "filter (improves m) [Suc b..<Suc n] = []"
    using assms(3) by (auto simp: filter_empty_conv)
  then have "filter (improves m) [0..<Suc n] = filter (improves m) [0..<b] @ [b]"
    unfolding split using assms(2) by simp
  then show ?thesis
    unfolding best_epoch_before_def by simp
qed

lemma train_loop_snoc:
  "\<not> stopped st \<Longrightarrow>
   train_loop E model dataset log_file save_file patience aml_run (es @ [e]) st =
     (let st' = train_loop E model dataset log_file save_file patience aml_run es st
      in if stopped st' then st'
         else train_epoch E model dataset log_file save_file patience aml_run e st')"
  by (induction es arbitrary: st) (simp_all add: Let_def)

lemma upto_snoc_nat: "[1..int (Suc k)] = [1..int k] @ [int k + 1]"
  using upto_rec2[of 1 "int k + 1"] by (simp add: add.commute)

subsection \<open>The invariant is established and kept\<close>

lemma train_init_fields:
  "weights (train_init E model dataset log_file save_file st)
     = pass_weights E model dataset VALIDATION False (weights st)"
  "best_valid_metric (train_init E model dataset log_file save_file st)
     = pass_metric E model dataset VALIDATION False (weights st)"
  "best_valid_epoch (train_init E model dataset log_file save_file st) = 0"
  "epoch (train_init E model dataset log_file save_file st) = 0"
  "stopped (train_init E model dataset log_file save_file st) = False"
  "pickle_files (train_init E model dataset log_file save_file st)
     = (pickle_files st)(save_file \<mapsto> data_to_store model dataset)"
  "weight_files (train_init E model dataset log_file save_file st)
     = (weight_files st)(save_file \<mapsto> pass_weights E model dataset VALIDATION False (weights st))"
  "trace (train_init E model dataset log_file save_file st)
     = trace st @ [RunOneEpoch VALIDATION False,
                   LogLine log_file (InitialValidMetric (pass_metric E model dataset VALIDATION False (weights st))),
                   StoredModel save_file]"
  by (simp_all add: train_init_def pass_weights_def pass_metric_def save_model_def emit_def
        Let_def split: prod.splits)

lemma train_init_inv:
  "train_inv (valid_metric_at E model dataset (weights st)) (weights_after E model dataset (weights st))
     patience save_file (data_to_store model dataset) 0
     (train_init E model dataset log_file save_file st)"
  by (auto simp: train_inv_def train_init_fields improves_0 stop_due_def)

lemma train_epoch_inv:
  assumes inv: "train_inv m ws patience save_file (data_to_store model dataset) k s"
    and run: "\<not> stopped s"
    and mk: "m (Suc k) = epoch_metric E model dataset (ws k)"
    and wk: "ws (Suc k) = epoch_weights E model dataset (ws k)"
  shows "train_inv m ws patience save_file (data_to_store model dataset) (Suc k)
           (train_epoch E model dataset log_file save_file patience aml_run (int k + 1) s)"
proof -
  let ?s' = "train_epoch E model dataset log_file save_file patience aml_run (int k + 1) s"
  let ?b = "nat (best_valid_epoch s)"
  from inv run have ep: "epoch s = int k"
    by (simp add: train_inv_def)
  from inv run ep have w: "weights s = ws k"
    and b0: "0 \<le> best_valid_epoch s" and bk: "best_valid_epoch s \<le> int k"
    and tb: "best_valid_metric s = tracked_best m k"
    and best: "best_valid_metric s = m ?b" and imp: "improves m ?b"
    and between: "\<forall>j. ?b < j \<and> j \<le> k \<longrightarrow> \<not> improves m j"
    and nostop: "\<forall>e < k. \<not> stop_due m patience e" and nostopk: "\<not> stop_due m patience k"
    and pf: "pickle_files s save_file = Some (data_to_store model dataset)"
    and wf: "weight_files s save_file = Some (ws ?b)"
    by (auto simp: train_inv_def)
  have vm: "epoch_metric E model dataset (weights s) = m (Suc k)"
    by (simp add: w mk)
  have ew: "epoch_weights E model dataset (weights s) = ws (Suc k)"
    by (simp add: w wk)
  have w': "weights ?s' = ws (Suc k)" and ep': "epoch ?s' = int (Suc k)"
    by (simp_all add: train_epoch_weights w wk)
  have nostop': "\<forall>e < Suc k. \<not> stop_due m patience e"
    using nostop nostopk by (auto simp: less_Suc_eq)
  show ?thesis
  proof (cases "float_lt (m (Suc k)) (best_valid_metric s)")
    case True
    then have c: "float_lt (epoch_metric E model dataset (weights s)) (best_valid_metric s)"
      by (simp add: vm)
    have imp': "improves m (Suc k)"
      using True tb by (simp add: improves_Suc)
    have tb': "tracked_best m (Suc k) = m (Suc k)"
      using True tb by simp
    have nd: "\<not> stop_due m patience (Suc k)"
      using imp' by (simp add: stop_due_def)
    show ?thesis
      unfolding train_inv_def
      using train_epoch_improved[OF c, of log_file save_file patience aml_run "int k + 1"]
        w' ep' imp' tb' nd nostop' run vm ew
      by (auto simp: nat_add_distrib)
  next
    case False
    then have c: "\<not> float_lt (epoch_metric E model dataset (weights s)) (best_valid_metric s)"
      by (simp add: vm)
    have bk': "?b \<le> k" using b0 bk by simp
    have nimp: "\<not> improves m (Suc k)"
      using False tb by (simp add: improves_Suc)
    have tb': "tracked_best m (Suc k) = best_valid_metric s"
      using False tb by simp
    have between': "\<forall>j. ?b < j \<and> j \<le> Suc k \<longrightarrow> \<not> improves m j"
      using between nimp by (auto simp: le_Suc_eq)
    have beb: "best_epoch_before m (Suc k) = ?b"
      using bk' imp between by (intro best_epoch_before_eq) auto
    have sd: "stop_due m patience (Suc k) \<longleftrightarrow> patience \<le> int k + 1 - best_valid_epoch s"
      using nimp b0 by (auto simp: stop_due_def beb)
    show ?thesis
      unfolding train_inv_def
      using train_epoch_stale[OF c, of log_file save_file patience aml_run "int k + 1"]
        w' ep' imp tb' between' nostop' run best b0 bk pf wf sd ew
      by (auto simp: nat_add_distrib)
  qed
qed

subsection \<open>The whole run\<close>

lemma train_inv_stopped_Suc:
  assumes "train_inv m ws patience save_file d k s" and "stopped s"
  shows "train_inv m ws patience save_file d (Suc k) s"
  using assms unfolding train_inv_def by auto

lemma train_loop_Suc:
  "train_loop E model dataset log_file save_file patience aml_run [1..int (Suc k)]
     (train_init E model dataset log_file save_file st) =
   (let s = train_loop E model dataset log_file save_file patience aml_run [1..int k]
              (train_init E model dataset log_file save_file st)
    in if stopped s then s
       else train_epoch E model dataset log_file save_file patience aml_run (int k + 1) s)"
  unfolding upto_snoc_nat
  by (rule train_loop_snoc) (simp add: train_init_fields)

lemma train_run_inv:
  "train_inv (valid_metric_at E model dataset (weights st))
     (weights_after E model dataset (weights st)) patience save_file
     (data_to_store model dataset) k
     (train_loop E model dataset log_file save_file patience aml_run [1..int k]
        (train_init E model dataset log_file save_file st))"
proof (induction k)
  case 0
  show ?case by (simp add: train_init_inv)
next
  case (Suc k)
  let ?s = "train_loop E model dataset log_file save_file patience aml_run [1..int k]
              (train_init E model dataset log_file save_file st)"
  show ?case
  proof (cases "stopped ?s")
    case True
    then show ?thesis
      using train_inv_stopped_Suc[OF Suc.IH] unfolding train_loop_Suc Let_def by simp
  next
    case False
    have "train_inv (valid_metric_at E model dataset (weights st))
            (weights_after E model dataset (weights st)) patience save_file
            (data_to_store model dataset) (Suc k)
            (train_epoch E model dataset log_file save_file patience aml_run (int k + 1) ?s)"
      by (rule train_epoch_inv[OF Suc.IH False]) simp_all
    then show ?thesis
      using False unfolding train_loop_Suc Let_def by simp
  qed
qed

lemma upto_nat: "[1..max_epochs] = [1..int (nat max_epochs)]"
  by (cases "0 \<le> max_epochs") simp_all

lemma upto_unfold_step: "[i..j] = (if i \<le> j then i # [i + 1..j] else [])"
  by (simp add: upto.simps)

lemma train_loop_trace_prefix:
  "\<exists>rest. trace (train_loop E model dataset log_file save_file patience aml_run es s)
            = trace s @ rest"
proof (induction es arbitrary: s)
  case Nil
  show ?case by simp
next
  case (Cons e es)
  let ?s1 = "train_epoch E model dataset log_file save_file patience aml_run e s"
  obtain r1 where r1: "trace ?s1 = trace s @ LogLine log_file (EpochHeader e) # RunOneEpoch TRAIN True # r1"
    using train_epoch_trace by blast
  obtain r2 where r2: "trace (train_loop E model dataset log_file save_file patience aml_run es ?s1)
      = trace ?s1 @ r2"
    using Cons.IH by blast
  show ?case
    by (cases "stopped ?s1") (simp_all add: Let_def r1 r2)
qed

lemma train_loop_trace_head:
  "\<exists>rest. trace (train_loop E model dataset log_file save_file patience aml_run es s)
            = trace s @ rest
          \<and> (rest = [] \<or>
              (\<exists>rest'. es \<noteq> [] \<and>
                 rest = LogLine log_file (EpochHeader (hd es)) # RunOneEpoch TRAIN True # rest'))"
proof (cases es)
  case Nil
  then show ?thesis by simp
next
  case (Cons e es')
  let ?s1 = "train_epoch E model dataset log_file save_file patience aml_run e s"
  obtain r1 where r1: "trace ?s1 = trace s @ LogLine log_file (EpochHeader e) # RunOneEpoch TRAIN True # r1"
    using train_epoch_trace by blast
  obtain r2 where r2: "trace (train_loop E model dataset log_file save_file patience aml_run es' ?s1)
      = trace ?s1 @ r2"
    using train_loop_trace_prefix by blast
  show ?thesis
    using Cons by (cases "stopped ?s1") (simp_all add: Let_def r1 r2)
qed

lemma hd_upto_1: "[1..max_epochs] \<noteq> [] \<Longrightarrow> hd [1..max_epochs] = 1"
  by (subst upto_unfold_step) (simp split: if_splits)

lemma train_epoch_best_step:
  "best_valid_metric (train_epoch E model dataset log_file save_file patience aml_run ep s)
     = best_valid_metric s
   \<or> float_lt (best_valid_metric (train_epoch E model dataset log_file save_file patience aml_run ep s))
        (best_valid_metric s)"
proof (cases "float_lt (epoch_metric E model dataset (weights s)) (best_valid_metric s)")
  case True
  then show ?thesis
    using train_epoch_improved(1)[OF True, of log_file save_file patience aml_run ep] by simp
next
  case False
  then show ?thesis
    using train_epoch_stale(1)[OF False, of log_file save_file patience aml_run ep] by simp
qed

lemma train_loop_best_antimono:
  assumes "k \<le> k'"
  shows "best_valid_metric (train_loop E model dataset log_file save_file patience aml_run
            [1..int k'] (train_init E model dataset log_file save_file st))
         = best_valid_metric (train_loop E model dataset log_file save_file patience aml_run
            [1..int k] (train_init E model dataset log_file save_file st))
       \<or> float_lt
           (best_valid_metric (train_loop E model dataset log_file save_file patience aml_run
              [1..int k'] (train_init E model dataset log_file save_file st)))
           (best_valid_metric (train_loop E model dataset log_file save_file patience aml_run
              [1..int k] (train_init E model dataset log_file save_file st)))"
  using assms
proof (induction k' rule: dec_induct)
  case base
  show ?case by simp
next
  case (step n)
  let ?S = "\<lambda>j. train_loop E model dataset log_file save_file patience aml_run
              [1..int j] (train_init E model dataset log_file save_file st)"
  have one: "best_valid_metric (?S (Suc n)) = best_valid_metric (?S n)
             \<or> float_lt (best_valid_metric (?S (Suc n))) (best_valid_metric (?S n))"
    unfolding train_loop_Suc Let_def
    using train_epoch_best_step[of E model dataset log_file save_file patience aml_run
        "int n + 1" "?S n"]
    by auto
  from one step.IH show ?case
    by (auto intro: float_lt_trans)
qed

lemma train_snd:
  "snd (train E model dataset log_file run_id max_epochs patience save_dir aml_run st)
      = train_loop E model dataset log_file (os_path_join save_dir (run_id @ ''_best.pkl''))
          patience aml_run [1..int (nat max_epochs)]
          (train_init E model dataset log_file (os_path_join save_dir (run_id @ ''_best.pkl'')) st)"
  unfolding train_def Let_def snd_conv by (subst upto_nat) (rule refl)

lemma train_inv_final:
  "train_inv (valid_metric_at E model dataset (weights st))
     (weights_after E model dataset (weights st)) patience
     (os_path_join save_dir (run_id @ ''_best.pkl''))
     (data_to_store model dataset) (nat max_epochs)
     (snd (train E model dataset log_file run_id max_epochs patience save_dir aml_run st))"
  by (simp only: train_snd train_run_inv)

lemma train_best_antimono:
  assumes "max_epochs \<le> max_epochs'"
  shows "best_valid_metric (snd (train E model dataset log_file run_id max_epochs' patience save_dir aml_run st))
         = best_valid_metric (snd (train E model dataset log_file run_id max_epochs patience save_dir aml_run st))
       \<or> float_lt
           (best_valid_metric (snd (train E model dataset log_file run_id max_epochs' patience save_dir aml_run st)))
           (best_valid_metric (snd (train E model dataset log_file run_id max_epochs patience save_dir aml_run st)))"
  unfolding train_snd using assms by (intro train_loop_best_antimono) simp

lemma tracked_best_mem: "\<exists>j\<le>n. tracked_best m n = m j"
  by (induction n) (auto intro: le_SucI)

lemma tracked_best_least:
  assumes "\<forall>j\<le>n. m j \<noteq> NaN"
  shows "\<forall>j\<le>n. tracked_best m n = m j \<or> float_lt (tracked_best m n) (m j)"
  using assms
proof (induction n)
  case 0
  show ?case by simp
next
  case (Suc n)
  then have IH: "\<forall>j\<le>n. tracked_best m n = m j \<or> float_lt (tracked_best m n) (m j)"
    by simp
  obtain i where "i \<le> n" and i: "tracked_best m n = m i"
    using tracked_best_mem by blast
  then have nn: "tracked_best m n \<noteq> NaN"
    using Suc.prems by simp
  have new: "m (Suc n) \<noteq> NaN"
    using Suc.prems by simp
  show ?case
  proof (cases "float_lt (m (Suc n)) (tracked_best m n)")
    case True
    then show ?thesis
      using IH by (auto simp: le_Suc_eq intro: float_lt_trans)
  next
    case False
    then have "tracked_best m n = m (Suc n) \<or> float_lt (tracked_best m n) (m (Suc n))"
      using float_lt_total[OF nn new] by blast
    then show ?thesis
      using False IH by (auto simp: le_Suc_eq)
  qed
qed

lemma improves_earliest:
  assumes "improves m b" and "\<forall>j\<le>b. m j \<noteq> NaN"
  shows "\<forall>j<b. float_lt (m b) (m j)"
proof (cases b)
  case 0
  then show ?thesis by simp
next
  case (Suc k)
  then have lt: "float_lt (m b) (tracked_best m k)"
    using assms(1) by (simp add: improves_Suc)
  have "\<forall>j\<le>k. tracked_best m k = m j \<or> float_lt (tracked_best m k) (m j)"
    using assms(2) Suc by (intro tracked_best_least) simp
  then show ?thesis
    using lt Suc by (auto simp: less_Suc_eq_le intro: float_lt_trans)
qed

subsection \<open>The small runs\<close>

lemma sequence_engine_weights_after:
  "weights_after (sequence_engine f) model dataset w n = w + n"
  by (induction n) (simp_all add: pass_weights_def epoch_weights_def sequence_engine_def)

lemma sequence_engine_metric_at:
  "valid_metric_at (sequence_engine f) model dataset w n = f (w + n)"
proof (cases n)
  case 0
  then show ?thesis
    by (simp add: pass_metric_def sequence_engine_def)
next
  case (Suc k)
  have "valid_metric_at (sequence_engine f) model dataset w (Suc k)
          = epoch_metric (sequence_engine f) model dataset (w + k)"
    by (simp add: sequence_engine_weights_after)
  also have "\<dots> = f (w + Suc k)"
    by (simp add: epoch_metric_def pass_metric_def pass_weights_def sequence_engine_def)
  finally show ?thesis using Suc by simp
qed

lemma example_run:
  "snd (train (sequence_engine example_metrics) example_model example_dataset ''run.log'' ''run''
      10 3 ''out'' False example_machine)
   = \<lparr>weights = 4,
      pickle_files = [''out/run_best.pkl'' \<mapsto> data_to_store example_model example_dataset],
      weight_files = [''out/run_best.pkl'' \<mapsto> 1],
      trace =
        [RunOneEpoch VALIDATION False,
         LogLine ''run.log'' (InitialValidMetric (Num 1)),
         StoredModel ''out/run_best.pkl'',
         LogLine ''run.log'' (EpochHeader 1),
         RunOneEpoch TRAIN True,
         LogLine ''run.log'' (TrainSummary (Num 0) (Num 1) (Num 0)),
         RunOneEpoch VALIDATION False,
         LogLine ''run.log'' (ValidSummary (Num 0) (Num (9 / 10)) (Num 0)),
         LogLine ''run.log'' (BestEpochSoFar (Num (9 / 10)) (Num 1)),
         StoredModel ''out/run_best.pkl'',
         LogLine ''run.log'' (EpochHeader 2),
         RunOneEpoch TRAIN True,
         LogLine ''run.log'' (TrainSummary (Num 0) (Num (9 / 10)) (Num 0)),
         RunOneEpoch VALIDATION False,
         LogLine ''run.log'' (ValidSummary (Num 0) (Num (95 / 100)) (Num 0)),
         LogLine ''run.log'' (EpochHeader 3),
         RunOneEpoch TRAIN True,
         LogLine ''run.log'' (TrainSummary (Num 0) (Num (95 / 100)) (Num 0)),
         RunOneEpoch VALIDATION False,
         LogLine ''run.log'' (ValidSummary (Num 0) (Num (95 / 100)) (Num 0)),
         LogLine ''run.log'' (EpochHeader 4),
         RunOneEpoch TRAIN True,
         LogLine ''run.log'' (TrainSummary (Num 0) (Num (95 / 100)) (Num 0)),
         RunOneEpoch VALIDATION False,
         LogLine ''run.log'' (ValidSummary (Num 0) (Num (95 / 100)) (Num 0)),
         LogLine ''run.log'' (StoppingTraining 3),
         LogLine ''run.log'' (TrainingTook (Num (9 / 10)))],
      best_valid_metric = Num (9 / 10), best_valid_epoch = 1, epoch = 4, stopped = True\<rparr>"
  apply (simp add: train_def os_path_join_def train_init_def sequence_engine_def
      example_machine_def emit_def save_model_def Let_def)
  apply (subst upto_unfold_step)
  apply (simp add: train_epoch_def epoch_passes_def example_metrics_def
      emit_def save_model_def aml_log_epoch_def Let_def)
  done


lemma nan_epoch_run:
  "best_valid_metric (snd (train (sequence_engine nan_epoch_metrics) example_model
      example_dataset ''run.log'' ''run'' 10 2 ''out'' False example_machine)) = Num (1 / 2)"
  "best_valid_epoch (snd (train (sequence_engine nan_epoch_metrics) example_model
      example_dataset ''run.log'' ''run'' 10 2 ''out'' False example_machine)) = 2"
  "epoch (snd (train (sequence_engine nan_epoch_metrics) example_model
      example_dataset ''run.log'' ''run'' 10 2 ''out'' False example_machine)) = 4"
  "stopped (snd (train (sequence_engine nan_epoch_metrics) example_model
      example_dataset ''run.log'' ''run'' 10 2 ''out'' False example_machine)) = True"
  "weight_files (snd (train (sequence_engine nan_epoch_metrics) example_model
      example_dataset ''run.log'' ''run'' 10 2 ''out'' False example_machine)) ''out/run_best.pkl''
     = Some 2"
  by (simp_all add: train_def os_path_join_def train_init_def sequence_engine_def
      example_machine_def emit_def save_model_def Let_def,
      (subst upto_unfold_step,
       simp add: train_epoch_def epoch_passes_def nan_epoch_metrics_def
         emit_def save_model_def aml_log_epoch_def Let_def)+)

lemma example_metric_values:
  "map (valid_metric_at (sequence_engine example_metrics) example_model example_dataset
          (weights example_machine)) [0, 1, 2, 3, 4]
     = [Num 1, Num (9 / 10), Num (95 / 100), Num (95 / 100), Num (95 / 100)]"
  unfolding list.map sequence_engine_metric_at
  by (simp add: example_metrics_def example_machine_def)

lemma os_path_join_plain:
  assumes "save_dir \<noteq> []" and "last save_dir \<noteq> CHR ''/''"
    and "run_id = [] \<or> hd run_id \<noteq> CHR ''/''"
  shows "os_path_join save_dir (run_id @ ''_best.pkl'') = save_dir @ ''/'' @ run_id @ ''_best.pkl''"
  using assms by (cases run_id) (simp_all add: os_path_join_def)

subsection \<open>Resolution of the parameters\<close>

lemma coerce_examples:
  "coerce_hyperdrive_value (Some (HInt 5)) ''7'' = Inr (HInt 7)"
  "coerce_hyperdrive_value (Some (HBool True)) ''false'' = Inr (HBool False)"
  "coerce_hyperdrive_value (Some (HFloat (1 / 10))) ''abc'' = Inl (HyperparameterCoercionError ''abc'')"
  "coerce_hyperdrive_value (Some (HStr ''x'')) ''7'' = Inr (HStr ''7'')"
  by (simp_all add: coerce_hyperdrive_value_def parse_int_def parse_float_def
        parse_unsigned_float_def parse_digits_def is_digit_def digit_value_def)

lemma load_params_empty: "load_params Map.empty key = Inr Map.empty"
  by (simp add: load_params_def)

lemma load_sources_no_file:
  assumes "\<not> truthy trained_model_file"
  shows "load_sources W pickles task_name mp trained_model_file =
     (case load_default_task_model_hypers W task_name mp of
        Inl e \<Rightarrow> Inl e
      | Inr tuned \<Rightarrow> Inr (Map.empty, None, None, tuned))"
  using assms by (simp add: load_sources_def)

lemma get_model_and_dataset_no_tuned:
  assumes "\<not> truthy trained_model_file"
    and "load_default_task_model_hypers W task_name mp = Inr Map.empty"
  shows "get_model_and_dataset W pickles task_name mp data_path trained_model_file
           cli_data_text cli_model_text search folds_to_load =
         (case json_loads W (or_empty_object cli_data_text) of
            Inl e \<Rightarrow> Inl e
          | Inr cli_data \<Rightarrow>
         (case get_dataset W task_name None Map.empty Map.empty cli_data of
            Inl e \<Rightarrow> Inl e
          | Inr dataset \<Rightarrow>
         (case json_loads W (or_empty_object cli_model_text) of
            Inl e \<Rightarrow> Inl e
          | Inr cli_model \<Rightarrow>
         (case get_model W mp task_name None dataset Map.empty Map.empty cli_model search of
            Inl e \<Rightarrow> Inl e
          | Inr model \<Rightarrow>
              Inr (dataset\<lparr>ds_loaded := ds_loaded dataset @ [(data_path, folds_to_load)]\<rparr>,
                   model)))))"
  using assms
  by (simp add: get_model_and_dataset_def load_sources_no_file load_params_empty
        dict_get_or_empty_def cong: sum.case_cong)

lemma get_model_and_dataset_tuned_error:
  assumes "\<not> truthy trained_model_file"
    and "load_default_task_model_hypers W task_name mp = Inl e"
  shows "get_model_and_dataset W pickles task_name mp data_path trained_model_file
           cli_data_text cli_model_text search folds_to_load = Inl e"
  using assms by (simp add: get_model_and_dataset_def load_sources_no_file)

lemma example_resolution:
  "\<exists>ds m. get_model_and_dataset example_world Map.empty (Some ''PPI'') (Some ''GGNN'')
             ''data/ppi'' None None None [] (Some {TRAIN, VALIDATION}) = Inr (ds, m)"
  by (simp add: get_model_and_dataset_def load_sources_def truthy_def
        load_default_task_model_hypers_def example_world_def load_params_def
        or_empty_object_def get_dataset_def get_model_def get_model_base_def Let_def)

subsection \<open>Search overrides leave the other keys alone\<close>

lemma override_other_keys:
  "override_model_params_with_hyperdrive_params params search = Inr final
   \<Longrightarrow> k \<notin> fst ` set search \<Longrightarrow> final k = params k"
proof (induction search arbitrary: params)
  case Nil
  then show ?case by simp
next
  case (Cons p search)
  obtain name v where p: "p = (name, v)" by (cases p)
  from Cons.prems(1) p obtain x where
    x: "coerce_hyperdrive_value (params name) v = Inr x"
    and rest: "override_model_params_with_hyperdrive_params (params(name \<mapsto> x)) search = Inr final"
    by (auto split: sum.splits)
  have "final k = (params(name \<mapsto> x)) k"
    using Cons.IH[OF rest] Cons.prems(2) by simp
  then show ?case
    using Cons.prems(2) p by simp
qed

subsection \<open>Improvement without a NaN, and the metrics of the small runs\<close>

lemma improves_iff_below_all:
  assumes "\<forall>j\<le>e. m j \<noteq> NaN"
  shows "improves m e \<longleftrightarrow> (\<forall>j<e. float_lt (m e) (m j))"
proof
  assume "improves m e"
  then show "\<forall>j<e. float_lt (m e) (m j)"
    using improves_earliest assms by blast
next
  assume below: "\<forall>j<e. float_lt (m e) (m j)"
  show "improves m e"
  proof (cases e)
    case 0
    then show ?thesis by (simp add: improves_0)
  next
    case (Suc k)
    obtain i where "i \<le> k" and "tracked_best m k = m i"
      using tracked_best_mem by blast
    then show ?thesis
      using below Suc by (simp add: improves_Suc less_Suc_eq_le)
  qed
qed

lemma nan_epoch_metric_values:
  "map (valid_metric_at (sequence_engine nan_epoch_metrics) example_model example_dataset
          (weights example_machine)) [0, 1, 2, 3, 4]
     = [Num 1, NaN, Num (1 / 2), Num (6 / 10), Num (6 / 10)]"
  unfolding list.map sequence_engine_metric_at
  by (simp add: nan_epoch_metrics_def example_machine_def)


section \<open>The claims\<close>

text \<open>
  C9. Every checkpoint that \<open>save_model\<close> writes records exactly four fields: the class
  of the model, the hyperparameters of the model, the class of the dataset and the
  hyperparameters of the dataset, each as the object holds it; the weights of the model
  are saved separately under the same path.
\<close>

theorem save_model_record:
  "pickle_files (save_model save_file model dataset st) save_file
     = Some (data_to_store model dataset)
   \<and> dom (data_to_store model dataset)
       = {''model_class'', ''model_params'', ''dataset_class'', ''dataset_params''}
   \<and> data_to_store model dataset ''model_class'' = Some (PClass (m_class model))
   \<and> data_to_store model dataset ''model_params'' = Some (PParams (m_params model))
   \<and> data_to_store model dataset ''dataset_class'' = Some (PClass (ds_class dataset))
   \<and> data_to_store model dataset ''dataset_params'' = Some (PParams (ds_params dataset))
   \<and> weight_files (save_model save_file model dataset st) save_file = Some (weights st)"
  by (auto simp: save_model_def emit_def data_to_store_def)

text \<open>
  C3. Improvement is strict: in an epoch whose validation metric equals the best so
  far, the best metric and the best epoch stay as they are, no file is written and no
  \<open>save_model\<close> message appears; the epoch counts against the patience, so the loop is
  left when \<open>patience\<close> or more epochs have passed since the best one.
\<close>

theorem train_tie_not_improvement:
  assumes "epoch_metric E model dataset (weights st) = best_valid_metric st"
  shows "best_valid_metric (train_epoch E model dataset log_file save_file patience aml_run ep st)
           = best_valid_metric st
       \<and> best_valid_epoch (train_epoch E model dataset log_file save_file patience aml_run ep st)
           = best_valid_epoch st
       \<and> pickle_files (train_epoch E model dataset log_file save_file patience aml_run ep st)
           = pickle_files st
       \<and> weight_files (train_epoch E model dataset log_file save_file patience aml_run ep st)
           = weight_files st
       \<and> (\<exists>new. trace (train_epoch E model dataset log_file save_file patience aml_run ep st)
                   = trace st @ new \<and> (\<forall>p. StoredModel p \<notin> set new))
       \<and> (stopped (train_epoch E model dataset log_file save_file patience aml_run ep st)
             \<longleftrightarrow> stopped st \<or> patience \<le> ep - best_valid_epoch st)"
proof -
  have c: "\<not> float_lt (epoch_metric E model dataset (weights st)) (best_valid_metric st)"
    using assms by (simp add: float_lt_irrefl)
  show ?thesis
    using train_epoch_stale[OF c, of log_file save_file patience aml_run ep]
      train_epoch_stale_trace[OF c, of log_file save_file patience aml_run ep]
    by simp
qed

text \<open>
  The tie on a run: every validation metric is 2, the patience is 1. Epoch 1 ties with
  the baseline: the best epoch stays 0, the checkpoint still holds the baseline weights,
  and the loop is left.
\<close>

theorem train_tie_not_improvement_witness:
  "epoch_metric (sequence_engine (\<lambda>e. Num 2)) example_model example_dataset
       (weights (train_init (sequence_engine (\<lambda>e. Num 2)) example_model example_dataset
                   ''run.log'' ''out/run_best.pkl'' example_machine))
     = best_valid_metric (train_init (sequence_engine (\<lambda>e. Num 2)) example_model example_dataset
                   ''run.log'' ''out/run_best.pkl'' example_machine)
   \<and> best_valid_metric
        (train_epoch (sequence_engine (\<lambda>e. Num 2)) example_model example_dataset
           ''run.log'' ''out/run_best.pkl'' 1 False 1
           (train_init (sequence_engine (\<lambda>e. Num 2)) example_model example_dataset
              ''run.log'' ''out/run_best.pkl'' example_machine)) = Num 2
   \<and> best_valid_epoch
        (train_epoch (sequence_engine (\<lambda>e. Num 2)) example_model example_dataset
           ''run.log'' ''out/run_best.pkl'' 1 False 1
           (train_init (sequence_engine (\<lambda>e. Num 2)) example_model example_dataset
              ''run.log'' ''out/run_best.pkl'' example_machine)) = 0
   \<and> weight_files
        (train_epoch (sequence_engine (\<lambda>e. Num 2)) example_model example_dataset
           ''run.log'' ''out/run_best.pkl'' 1 False 1
           (train_init (sequence_engine (\<lambda>e. Num 2)) example_model example_dataset
              ''run.log'' ''out/run_best.pkl'' example_machine)) ''out/run_best.pkl'' = Some 0
   \<and> stopped
        (train_epoch (sequence_engine (\<lambda>e. Num 2)) example_model example_dataset
           ''run.log'' ''out/run_best.pkl'' 1 False 1
           (train_init (sequence_engine (\<lambda>e. Num 2)) example_model example_dataset
              ''run.log'' ''out/run_best.pkl'' example_machine))"
proof -
  let ?E = "sequence_engine (\<lambda>e. Num 2)"
  let ?s0 = "train_init ?E example_model example_dataset ''run.log'' ''out/run_best.pkl''
               example_machine"
  have tie: "epoch_metric ?E example_model example_dataset (weights ?s0) = best_valid_metric ?s0"
    by (simp add: train_init_fields epoch_metric_def pass_metric_def pass_weights_def
          sequence_engine_def)
  show ?thesis
    using tie train_tie_not_improvement[OF tie, of "''run.log''" "''out/run_best.pkl''" 1 False 1]
    by (simp add: train_init_fields pass_metric_def pass_weights_def sequence_engine_def
          example_machine_def)
qed

text \<open>
  C1. When \<open>get_dataset\<close> is given no class and the task is registered, the resolved
  mapping is the default hyperparameters of the task's dataset class, overwritten in
  this order by the task's default overrides, the tuned task+model defaults and the
  CLI overrides. Each layer replaces only the top-level keys it holds (a nested
  mapping is replaced whole), and a key that none of the three layers holds keeps the
  value of the class defaults.
\<close>

theorem get_dataset_layers:
  assumes "task_name_to_dataset_class W task_name = Inr (cls, task_overrides)"
  shows "\<exists>ds. get_dataset W task_name None tuned loaded cli = Inr ds
           \<and> ds_class ds = cls
           \<and> ds_params ds = dataset_default_hyperparameters W cls ++ task_overrides ++ tuned ++ cli
           \<and> (\<forall>k. ds_params ds k =
                 (case cli k of Some v \<Rightarrow> Some v
                  | None \<Rightarrow> (case tuned k of Some v \<Rightarrow> Some v
                  | None \<Rightarrow> (case task_overrides k of Some v \<Rightarrow> Some v
                  | None \<Rightarrow> dataset_default_hyperparameters W cls k))))
           \<and> (\<forall>k. k \<notin> dom task_overrides \<union> dom tuned \<union> dom cli
                 \<longrightarrow> ds_params ds k = dataset_default_hyperparameters W cls k)"
  using assms
  by (auto simp: get_dataset_def dict_update_def map_add_def domIff split: option.splits)

text \<open>
  On the small world: the tuned defaults set \<open>max_nodes_per_batch\<close> to 6000 and the CLI
  sets it to 500; the task overrides \<open>tie_fwd_bkwd_edges\<close>; \<open>add_self_loop_edges\<close> keeps its
  class default.
\<close>

theorem get_dataset_layers_witness:
  "task_name_to_dataset_class example_world (Some ''PPI'')
     = Inr (''PPIDataset'', [''tie_fwd_bkwd_edges'' \<mapsto> HBool False])
   \<and> (\<exists>ds. get_dataset example_world (Some ''PPI'') None
               [''max_nodes_per_batch'' \<mapsto> HInt 6000] Map.empty
               [''max_nodes_per_batch'' \<mapsto> HInt 500] = Inr ds
          \<and> ds_class ds = ''PPIDataset''
          \<and> ds_params ds ''max_nodes_per_batch'' = Some (HInt 500)
          \<and> ds_params ds ''tie_fwd_bkwd_edges'' = Some (HBool False)
          \<and> ds_params ds ''add_self_loop_edges'' = Some (HBool True)
          \<and> ds_params ds ''unknown_key'' = None)"
proof -
  have reg: "task_name_to_dataset_class example_world (Some ''PPI'')
     = Inr (''PPIDataset'', [''tie_fwd_bkwd_edges'' \<mapsto> HBool False])"
    by (simp add: example_world_def)
  from get_dataset_layers[OF reg, of "[''max_nodes_per_batch'' \<mapsto> HInt 6000]" Map.empty
      "[''max_nodes_per_batch'' \<mapsto> HInt 500]"]
  obtain ds where ds: "get_dataset example_world (Some ''PPI'') None
               [''max_nodes_per_batch'' \<mapsto> HInt 6000] Map.empty
               [''max_nodes_per_batch'' \<mapsto> HInt 500] = Inr ds"
    and cls: "ds_class ds = ''PPIDataset''"
    and par: "ds_params ds = dataset_default_hyperparameters example_world ''PPIDataset''
                ++ [''tie_fwd_bkwd_edges'' \<mapsto> HBool False]
                ++ [''max_nodes_per_batch'' \<mapsto> HInt 6000]
                ++ [''max_nodes_per_batch'' \<mapsto> HInt 500]"
    by blast
  show ?thesis
    using reg ds cls by (simp add: par example_world_def map_add_def)
qed

text \<open>
  C7. Without a saved model, the tuned defaults are looked up in the file
  \<open>default_hypers/{task}_{msg_passing_impl}.json\<close> next to the module. When the file
  does not exist nothing fails at this step: both groups of tuned defaults are empty
  and the resolution goes on as with no tuned layer. The step fails only when the file
  exists and reading it as JSON fails, and then that error is the result.
\<close>

theorem tuned_defaults_missing_file:
  "task_model_default_hypers_file W task_name mp
     = os_path_join (os_path_join (module_dir W) ''default_hypers'')
         (py_str task_name @ ''_'' @ py_str mp @ ''.json'')
   \<and> (\<not> os_path_exists W (task_model_default_hypers_file W task_name mp) \<longrightarrow>
        load_default_task_model_hypers W task_name mp = Inr Map.empty
        \<and> dict_get_or_empty (Map.empty :: string \<rightharpoonup> hypers) ''task_params'' = Map.empty
        \<and> dict_get_or_empty (Map.empty :: string \<rightharpoonup> hypers) ''model_params'' = Map.empty
        \<and> (\<not> truthy trained_model_file \<longrightarrow>
             load_sources W pickles task_name mp trained_model_file
               = Inr (Map.empty, None, None, Map.empty)
             \<and> get_model_and_dataset W pickles task_name mp data_path trained_model_file
                 cli_data_text cli_model_text search folds_to_load =
               (case json_loads W (or_empty_object cli_data_text) of
                  Inl e \<Rightarrow> Inl e
                | Inr cli_data \<Rightarrow>
               (case get_dataset W task_name None Map.empty Map.empty cli_data of
                  Inl e \<Rightarrow> Inl e
                | Inr dataset \<Rightarrow>
               (case json_loads W (or_empty_object cli_model_text) of
                  Inl e \<Rightarrow> Inl e
                | Inr cli_model \<Rightarrow>
               (case get_model W mp task_name None dataset Map.empty Map.empty cli_model search of
                  Inl e \<Rightarrow> Inl e
                | Inr model \<Rightarrow>
                    Inr (dataset\<lparr>ds_loaded := ds_loaded dataset @ [(data_path, folds_to_load)]\<rparr>,
                         model)))))))
   \<and> (\<forall>e. load_default_task_model_hypers W task_name mp = Inl e \<longrightarrow>
          os_path_exists W (task_model_default_hypers_file W task_name mp)
          \<and> json_load W (task_model_default_hypers_file W task_name mp) = Inl e)
   \<and> (\<forall>e. os_path_exists W (task_model_default_hypers_file W task_name mp)
          \<and> json_load W (task_model_default_hypers_file W task_name mp) = Inl e
          \<and> \<not> truthy trained_model_file \<longrightarrow>
          get_model_and_dataset W pickles task_name mp data_path trained_model_file
            cli_data_text cli_model_text search folds_to_load = Inl e)"
  (is "?name \<and> ?missing \<and> ?only \<and> ?malformed")
proof -
  let ?file = "task_model_default_hypers_file W task_name mp"
  have absent: "load_default_task_model_hypers W task_name mp = Inr Map.empty"
    if "\<not> os_path_exists W ?file"
    using that by (simp add: load_default_task_model_hypers_def)
  have present: "load_default_task_model_hypers W task_name mp = json_load W ?file"
    if "os_path_exists W ?file"
    using that by (simp add: load_default_task_model_hypers_def)
  have "?name"
    by (simp add: task_model_default_hypers_file_def)
  moreover have "?missing"
  proof (intro impI conjI)
    assume no: "\<not> os_path_exists W ?file"
    show "load_default_task_model_hypers W task_name mp = Inr Map.empty"
      by (rule absent[OF no])
    show "dict_get_or_empty (Map.empty :: string \<rightharpoonup> hypers) ''task_params'' = Map.empty"
      by (simp add: dict_get_or_empty_def)
    show "dict_get_or_empty (Map.empty :: string \<rightharpoonup> hypers) ''model_params'' = Map.empty"
      by (simp add: dict_get_or_empty_def)
    assume nf: "\<not> truthy trained_model_file"
    show "load_sources W pickles task_name mp trained_model_file
            = Inr (Map.empty, None, None, Map.empty)"
      by (simp add: load_sources_no_file[OF nf] absent[OF no])
    show "get_model_and_dataset W pickles task_name mp data_path trained_model_file
                 cli_data_text cli_model_text search folds_to_load =
               (case json_loads W (or_empty_object cli_data_text) of
                  Inl e \<Rightarrow> Inl e
                | Inr cli_data \<Rightarrow>
               (case get_dataset W task_name None Map.empty Map.empty cli_data of
                  Inl e \<Rightarrow> Inl e
                | Inr dataset \<Rightarrow>
               (case json_loads W (or_empty_object cli_model_text) of
                  Inl e \<Rightarrow> Inl e
                | Inr cli_model \<Rightarrow>
               (case get_model W mp task_name None dataset Map.empty Map.empty cli_model search of
                  Inl e \<Rightarrow> Inl e
                | Inr model \<Rightarrow>
                    Inr (dataset\<lparr>ds_loaded := ds_loaded dataset @ [(data_path, folds_to_load)]\<rparr>,
                         model)))))"
      by (rule get_model_and_dataset_no_tuned[OF nf absent[OF no]])
  qed
  moreover have "?only"
  proof (intro allI impI)
    fix e
    assume err: "load_default_task_model_hypers W task_name mp = Inl e"
    show "os_path_exists W ?file \<and> json_load W ?file = Inl e"
    proof (cases "os_path_exists W ?file")
      case True
      then show ?thesis using err present by simp
    next
      case False
      then show ?thesis using err absent by simp
    qed
  qed
  moreover have "?malformed"
  proof (intro allI impI)
    fix e
    assume a: "os_path_exists W ?file \<and> json_load W ?file = Inl e \<and> \<not> truthy trained_model_file"
    then have "load_default_task_model_hypers W task_name mp = Inl e"
      using present by simp
    with a show "get_model_and_dataset W pickles task_name mp data_path trained_model_file
            cli_data_text cli_model_text search folds_to_load = Inl e"
      by (simp add: get_model_and_dataset_tuned_error)
  qed
  ultimately show ?thesis by blast
qed

text \<open>
  On the small world no such file exists, and the resolution succeeds with the class
  defaults and the task's overrides only.
\<close>

theorem tuned_defaults_missing_file_witness:
  "\<not> os_path_exists example_world
        (task_model_default_hypers_file example_world (Some ''PPI'') (Some ''GGNN''))
   \<and> \<not> truthy None
   \<and> task_model_default_hypers_file example_world (Some ''PPI'') (Some ''GGNN'')
       = ''/opt/tf2_gnn/utils/default_hypers/PPI_GGNN.json''
   \<and> load_default_task_model_hypers example_world (Some ''PPI'') (Some ''GGNN'') = Inr Map.empty
   \<and> (\<exists>ds m. get_model_and_dataset example_world Map.empty (Some ''PPI'') (Some ''GGNN'')
                 ''data/ppi'' None None None [] None = Inr (ds, m)
          \<and> ds_params ds ''max_nodes_per_batch'' = Some (HInt 10000)
          \<and> ds_params ds ''tie_fwd_bkwd_edges'' = Some (HBool False)
          \<and> m_params m ''learning_rate'' = Some (HFloat (1 / 1000))
          \<and> m_params m ''gnn_message_calculation_class'' = Some (HStr ''GGNN''))"
proof -
  have no: "\<not> os_path_exists example_world
        (task_model_default_hypers_file example_world (Some ''PPI'') (Some ''GGNN''))"
    by (simp add: example_world_def)
  have nf: "\<not> truthy None"
    by (simp add: truthy_def)
  note t = tuned_defaults_missing_file[of example_world "Some ''PPI''" "Some ''GGNN''" None
      Map.empty "''data/ppi''" None None "[]" None]
  have name: "task_model_default_hypers_file example_world (Some ''PPI'') (Some ''GGNN'')
       = ''/opt/tf2_gnn/utils/default_hypers/PPI_GGNN.json''"
    using t by (simp add: example_world_def os_path_join_def py_str_def)
  have load: "load_default_task_model_hypers example_world (Some ''PPI'') (Some ''GGNN'') = Inr Map.empty"
    using t no by blast
  have run: "get_model_and_dataset example_world Map.empty (Some ''PPI'') (Some ''GGNN'')
                 ''data/ppi'' None None None [] None =
               (case json_loads example_world (or_empty_object None) of
                  Inl e \<Rightarrow> Inl e
                | Inr cli_data \<Rightarrow>
               (case get_dataset example_world (Some ''PPI'') None Map.empty Map.empty cli_data of
                  Inl e \<Rightarrow> Inl e
                | Inr dataset \<Rightarrow>
               (case json_loads example_world (or_empty_object None) of
                  Inl e \<Rightarrow> Inl e
                | Inr cli_model \<Rightarrow>
               (case get_model example_world (Some ''GGNN'') (Some ''PPI'') None dataset Map.empty
                       Map.empty cli_model [] of
                  Inl e \<Rightarrow> Inl e
                | Inr model \<Rightarrow>
                    Inr (dataset\<lparr>ds_loaded := ds_loaded dataset @ [(''data/ppi'', None)]\<rparr>,
                         model)))))"
    using t no nf by blast
  have "\<exists>ds m. get_model_and_dataset example_world Map.empty (Some ''PPI'') (Some ''GGNN'')
                 ''data/ppi'' None None None [] None = Inr (ds, m)
          \<and> ds_params ds ''max_nodes_per_batch'' = Some (HInt 10000)
          \<and> ds_params ds ''tie_fwd_bkwd_edges'' = Some (HBool False)
          \<and> m_params m ''learning_rate'' = Some (HFloat (1 / 1000))
          \<and> m_params m ''gnn_message_calculation_class'' = Some (HStr ''GGNN'')"
    unfolding run
    by (simp add: example_world_def or_empty_object_def get_dataset_def get_model_def
          get_model_base_def dict_update_def msg_passing_value_def)
  with no nf name load show ?thesis by blast
qed

text \<open>
  C8. In \<open>get_model\<close> the search overrides are applied to the mapping that already
  holds the CLI overrides, and each is coerced by the type of the value the mapping
  holds under its key at that point: over an int 5 the string \<open>7\<close> gives the int 7; over
  a boolean true the string \<open>false\<close> gives the boolean false; over a float 0.1 the string
  \<open>abc\<close> raises \<open>HyperparameterCoercionError\<close>. The last two lines show that the type is
  the one the CLI override left behind. The coercion itself is the one modelled from
  the spec above.
\<close>

theorem search_overrides_after_cli:
  "get_model W mp task_name model_cls dataset tuned loaded cli [(name, v)] =
     (case get_model_base W mp task_name model_cls tuned loaded of
        Inl e \<Rightarrow> Inl e
      | Inr (cls, base) \<Rightarrow>
          (case coerce_hyperdrive_value ((base ++ cli) name) v of
             Inl e \<Rightarrow> Inl e
           | Inr x \<Rightarrow> Inr \<lparr>m_class = cls, m_params = (base ++ cli)(name \<mapsto> x),
                           m_num_edge_types = dataset_num_edge_types W dataset\<rparr>))
   \<and> get_model W mp task_name (Some cls) dataset tuned [''k'' \<mapsto> HInt 5] Map.empty [(''k'', ''7'')]
       = Inr \<lparr>m_class = cls, m_params = [''k'' \<mapsto> HInt 7],
              m_num_edge_types = dataset_num_edge_types W dataset\<rparr>
   \<and> get_model W mp task_name (Some cls) dataset tuned [''k'' \<mapsto> HBool True] Map.empty
         [(''k'', ''false'')]
       = Inr \<lparr>m_class = cls, m_params = [''k'' \<mapsto> HBool False],
              m_num_edge_types = dataset_num_edge_types W dataset\<rparr>
   \<and> get_model W mp task_name (Some cls) dataset tuned [''k'' \<mapsto> HFloat (1 / 10)] Map.empty
         [(''k'', ''abc'')]
       = Inl (HyperparameterCoercionError ''abc'')
   \<and> get_model W mp task_name (Some cls) dataset tuned [''k'' \<mapsto> HStr ''x''] [''k'' \<mapsto> HInt 5]
         [(''k'', ''7'')]
       = Inr \<lparr>m_class = cls, m_params = [''k'' \<mapsto> HInt 7],
              m_num_edge_types = dataset_num_edge_types W dataset\<rparr>
   \<and> get_model W mp task_name (Some cls) dataset tuned [''k'' \<mapsto> HInt 5] [''k'' \<mapsto> HStr ''x'']
         [(''k'', ''7'')]
       = Inr \<lparr>m_class = cls, m_params = [''k'' \<mapsto> HStr ''7''],
              m_num_edge_types = dataset_num_edge_types W dataset\<rparr>"
  by (simp add: get_model_def get_model_base_def dict_update_def coerce_examples
        split: sum.splits prod.splits)

text \<open>
  C5. The claim: a run name that is given becomes the run identifier. The code of
  \<open>run_train_from_args\<close> calls \<open>make_run_id\<close> without the run name, so the identifier is
  always made from model, task and time. Here the arguments carry the run name
  \<open>my-run\<close>, which \<open>make_run_id\<close> would return if it were passed; the log file and the
  checkpoint are named after \<open>GGNN_PPI__2020-01-01_00-00-00\<close>.
\<close>

theorem run_name_ignored:
  "arg_run_name example_args = Some ''my-run''
   \<and> make_run_id (arg_model example_args) (arg_task example_args) (arg_run_name example_args)
         ''2020-01-01_00-00-00'' = ''my-run''
   \<and> (\<exists>r. run_train_from_args example_world (sequence_engine example_metrics) example_args []
              ''2020-01-01_00-00-00'' example_machine = Inr r
          \<and> res_run_id r = ''GGNN_PPI__2020-01-01_00-00-00''
          \<and> res_log_file r = ''trained_model/GGNN_PPI__2020-01-01_00-00-00.log''
          \<and> res_trained_model_path r = ''trained_model/GGNN_PPI__2020-01-01_00-00-00_best.pkl'')"
proof -
  obtain ds m where r: "get_model_and_dataset example_world Map.empty (Some ''PPI'') (Some ''GGNN'')
             ''data/ppi'' None None None [] (Some {TRAIN, VALIDATION}) = Inr (ds, m)"
    using example_resolution by blast
  show ?thesis
    by (simp add: run_train_from_args_def example_args_def example_machine_def r
          make_run_id_def os_path_join_def truthy_def train_def Let_def)
qed

text \<open>
  C6. With a saved model (a path that is given and not empty) whose checkpoint record
  holds the two class names and the two hyperparameter mappings \<open>loaded_data\<close> and
  \<open>loaded_model\<close>: the result has the classes of the checkpoint; the mapping of the
  dataset is the loaded one with the CLI overrides on top, and that is final; the
  mapping of the model is what the search overrides make of the loaded one with the
  CLI overrides on top. No default of a class, of the task or of the tuned file enters
  either mapping. With no search override the mapping of the model is the loaded one
  with the CLI overrides on top; with search overrides it agrees with that on every
  key that no search override names.
\<close>

theorem saved_model_is_base:
  assumes tmf: "trained_model_file = Some f" "f \<noteq> []"
    and ckpt: "pickles f = Some data"
    and mc: "data ''model_class'' = Some (PClass model_cls)"
    and dc: "data ''dataset_class'' = Some (PClass dataset_cls)"
    and dp: "data ''dataset_params'' = Some (PParams loaded_data)"
    and mp: "data ''model_params'' = Some (PParams loaded_model)"
    and cd: "json_loads W (or_empty_object cli_data_text) = Inr cli_data"
    and cm: "json_loads W (or_empty_object cli_model_text) = Inr cli_model"
    and hd: "override_model_params_with_hyperdrive_params (loaded_model ++ cli_model) search
               = Inr final_model"
  shows "get_model_and_dataset W pickles task_name msg_passing_implementation data_path
           trained_model_file cli_data_text cli_model_text search folds_to_load =
         Inr (\<lparr>ds_class = dataset_cls, ds_params = loaded_data ++ cli_data,
               ds_loaded = [(data_path, folds_to_load)]\<rparr>,
              \<lparr>m_class = model_cls, m_params = final_model,
               m_num_edge_types = dataset_num_edge_types W
                 \<lparr>ds_class = dataset_cls, ds_params = loaded_data ++ cli_data, ds_loaded = []\<rparr>\<rparr>)
         \<and> (search = [] \<longrightarrow> final_model = loaded_model ++ cli_model)
         \<and> (\<forall>k. k \<notin> fst ` set search \<longrightarrow> final_model k = (loaded_model ++ cli_model) k)"
proof -
  have keep: "\<forall>k. k \<notin> fst ` set search \<longrightarrow> final_model k = (loaded_model ++ cli_model) k"
    using override_other_keys[OF hd] by blast
  show ?thesis
    using assms keep
    by (auto simp: get_model_and_dataset_def load_sources_def truthy_def load_class_def
          load_params_def get_dataset_def get_model_def get_model_base_def dict_update_def)
qed

text \<open>
  On a checkpoint that \<open>save_model\<close> wrote, with a CLI override for the dataset and one
  for the model: each overridden key has the value of the CLI, the other keys of the
  checkpoint keep the checkpoint's values (which differ from the defaults of the
  registry), and the keys that only the defaults hold are absent.
\<close>

theorem saved_model_is_base_witness:
  "pickle_files (save_model ''ckpt.pkl'' example_model example_dataset example_machine) ''ckpt.pkl''
     = Some (data_to_store example_model example_dataset)
   \<and> (\<exists>ds m. get_model_and_dataset example_world
        (pickle_files (save_model ''ckpt.pkl'' example_model example_dataset example_machine))
        (Some ''PPI'') (Some ''GGNN'') ''data/ppi'' (Some ''ckpt.pkl'')
        (Some example_override_text) (Some example_model_override_text) [] None = Inr (ds, m)
      \<and> ds_class ds = ''PPIDataset''
      \<and> ds_params ds ''max_nodes_per_batch'' = Some (HInt 500)
      \<and> ds_params ds ''add_self_loop_edges'' = Some (HBool False)
      \<and> ds_params ds ''tie_fwd_bkwd_edges'' = None
      \<and> m_class m = ''NodeMulticlassTask''
      \<and> m_params m ''num_layers'' = Some (HInt 6)
      \<and> m_params m ''learning_rate'' = Some (HFloat (1 / 20))
      \<and> m_params m ''gnn_message_calculation_class'' = None)"
proof -
  let ?pickles = "pickle_files (save_model ''ckpt.pkl'' example_model example_dataset example_machine)"
  let ?data = "data_to_store example_model example_dataset"
  let ?ld = "[''max_nodes_per_batch'' \<mapsto> HInt 10000, ''add_self_loop_edges'' \<mapsto> HBool False]"
  let ?lm = "[''num_layers'' \<mapsto> HInt 4, ''learning_rate'' \<mapsto> HFloat (1 / 20)]"
  let ?cd = "[''max_nodes_per_batch'' \<mapsto> HInt 500]"
  let ?cm = "[''num_layers'' \<mapsto> HInt 6]"
  have ckpt: "?pickles ''ckpt.pkl'' = Some ?data"
    by (simp add: save_model_def emit_def)
  have mc: "?data ''model_class'' = Some (PClass ''NodeMulticlassTask'')"
    and dc: "?data ''dataset_class'' = Some (PClass ''PPIDataset'')"
    and dp: "?data ''dataset_params'' = Some (PParams ?ld)"
    and mp: "?data ''model_params'' = Some (PParams ?lm)"
    by (simp_all add: data_to_store_def example_model_def example_dataset_def)
  have cd: "json_loads example_world (or_empty_object (Some example_override_text)) = Inr ?cd"
    by (simp add: example_world_def or_empty_object_def example_override_text_def)
  have cm: "json_loads example_world (or_empty_object (Some example_model_override_text)) = Inr ?cm"
    by (simp add: example_world_def or_empty_object_def example_override_text_def
          example_model_override_text_def)
  have hd: "override_model_params_with_hyperdrive_params (?lm ++ ?cm) [] = Inr (?lm ++ ?cm)"
    by simp
  have ne: "''ckpt.pkl'' \<noteq> []" by simp
  note t = saved_model_is_base[where W = example_world and pickles = "?pickles"
        and f = "''ckpt.pkl''" and data = "?data" and task_name = "Some ''PPI''"
        and msg_passing_implementation = "Some ''GGNN''" and data_path = "''data/ppi''"
        and folds_to_load = None, OF refl ne ckpt mc dc dp mp cd cm hd]
  from t have run: "get_model_and_dataset example_world ?pickles
        (Some ''PPI'') (Some ''GGNN'') ''data/ppi'' (Some ''ckpt.pkl'')
        (Some example_override_text) (Some example_model_override_text) [] None
      = Inr (\<lparr>ds_class = ''PPIDataset'', ds_params = ?ld ++ ?cd,
               ds_loaded = [(''data/ppi'', None)]\<rparr>,
              \<lparr>m_class = ''NodeMulticlassTask'', m_params = ?lm ++ ?cm,
               m_num_edge_types = dataset_num_edge_types example_world
                 \<lparr>ds_class = ''PPIDataset'', ds_params = ?ld ++ ?cd, ds_loaded = []\<rparr>\<rparr>)"
    by blast
  show ?thesis
    using ckpt unfolding run by simp
qed

text \<open>
  For the model the CLI overrides are not the last layer. The checkpoint holds
  \<open>num_layers\<close> 4, the CLI override sets it to 6, and the search override \<open>7\<close> is applied
  after that: the resolved value is 7, and the resolved mapping is not the loaded one
  with the CLI overrides on top. The value 7 comes from the coercion modelled from the
  spec above; that the search overrides come after the CLI overrides is the order of
  the calls in \<open>get_model\<close>.
\<close>

theorem saved_model_cli_last_counterexample:
  "get_model_and_dataset example_world
      (pickle_files (save_model ''ckpt.pkl'' example_model example_dataset example_machine))
      (Some ''PPI'') (Some ''GGNN'') ''data/ppi'' (Some ''ckpt.pkl'')
      None (Some example_model_override_text) [(''num_layers'', ''7'')] None
     = Inr (\<lparr>ds_class = ''PPIDataset'', ds_params = ds_params example_dataset,
             ds_loaded = [(''data/ppi'', None)]\<rparr>,
            \<lparr>m_class = ''NodeMulticlassTask'',
             m_params = (m_params example_model ++ [''num_layers'' \<mapsto> HInt 6])
                          (''num_layers'' \<mapsto> HInt 7),
             m_num_edge_types = dataset_num_edge_types example_world
               \<lparr>ds_class = ''PPIDataset'', ds_params = ds_params example_dataset,
                ds_loaded = []\<rparr>\<rparr>)
   \<and> m_params example_model ''num_layers'' = Some (HInt 4)
   \<and> (m_params example_model ++ [''num_layers'' \<mapsto> HInt 6]) ''num_layers'' = Some (HInt 6)
   \<and> ((m_params example_model ++ [''num_layers'' \<mapsto> HInt 6])(''num_layers'' \<mapsto> HInt 7))
        ''num_layers'' = Some (HInt 7)
   \<and> (m_params example_model ++ [''num_layers'' \<mapsto> HInt 6])(''num_layers'' \<mapsto> HInt 7)
       \<noteq> m_params example_model ++ [''num_layers'' \<mapsto> HInt 6]"
proof -
  have seven: "coerce_hyperdrive_value (Some (HInt 6)) ''7'' = Inr (HInt 7)"
    by (simp add: coerce_hyperdrive_value_def parse_int_def parse_digits_def is_digit_def
          digit_value_def)
  have run: "get_model_and_dataset example_world
      (pickle_files (save_model ''ckpt.pkl'' example_model example_dataset example_machine))
      (Some ''PPI'') (Some ''GGNN'') ''data/ppi'' (Some ''ckpt.pkl'')
      None (Some example_model_override_text) [(''num_layers'', ''7'')] None
     = Inr (\<lparr>ds_class = ''PPIDataset'', ds_params = ds_params example_dataset,
             ds_loaded = [(''data/ppi'', None)]\<rparr>,
            \<lparr>m_class = ''NodeMulticlassTask'',
             m_params = (m_params example_model ++ [''num_layers'' \<mapsto> HInt 6])
                          (''num_layers'' \<mapsto> HInt 7),
             m_num_edge_types = dataset_num_edge_types example_world
               \<lparr>ds_class = ''PPIDataset'', ds_params = ds_params example_dataset,
                ds_loaded = []\<rparr>\<rparr>)"
    by (simp add: get_model_and_dataset_def load_sources_def truthy_def load_class_def
          load_params_def get_dataset_def get_model_def get_model_base_def dict_update_def
          save_model_def emit_def data_to_store_def example_model_def example_dataset_def
          example_world_def or_empty_object_def example_model_override_text_def
          example_override_text_def seven)
  have four: "m_params example_model ''num_layers'' = Some (HInt 4)"
    by (simp add: example_model_def)
  have six: "(m_params example_model ++ [''num_layers'' \<mapsto> HInt 6]) ''num_layers'' = Some (HInt 6)"
    by simp
  have sev: "((m_params example_model ++ [''num_layers'' \<mapsto> HInt 6])(''num_layers'' \<mapsto> HInt 7))
        ''num_layers'' = Some (HInt 7)"
    by simp
  have ne: "(m_params example_model ++ [''num_layers'' \<mapsto> HInt 6])(''num_layers'' \<mapsto> HInt 7)
       \<noteq> m_params example_model ++ [''num_layers'' \<mapsto> HInt 6]"
  proof
    assume "(m_params example_model ++ [''num_layers'' \<mapsto> HInt 6])(''num_layers'' \<mapsto> HInt 7)
       = m_params example_model ++ [''num_layers'' \<mapsto> HInt 6]"
    then have "((m_params example_model ++ [''num_layers'' \<mapsto> HInt 6])(''num_layers'' \<mapsto> HInt 7))
        ''num_layers'' = (m_params example_model ++ [''num_layers'' \<mapsto> HInt 6]) ''num_layers''"
      by (rule arg_cong)
    then have "Some (HInt 7) = Some (HInt 6)"
      unfolding six sev .
    then show False by simp
  qed
  from run four six sev ne show ?thesis
    by (intro conjI)
qed

text \<open>
  C2. Early stopping. With \<open>m\<close> the validation metrics of the run (epoch 0 is the
  baseline), an epoch improves when its metric is strictly below the best metric
  tracked so far, by Python's \<open><\<close>, and a stop is due at epoch \<open>e\<close> when \<open>m e\<close> does not
  improve and \<open>e - b \<ge> patience\<close>, where \<open>b\<close> is the last epoch before \<open>e\<close> that improved.
  The loop is left by \<open>break\<close> exactly at the first epoch at which a stop is due: when
  it was left, its epoch lies within \<open>1..max_epochs\<close>, a stop is due at it and at no
  earlier epoch, and the best-epoch counter is that \<open>b\<close>; when it was not left, it ran
  all \<open>max_epochs\<close> epochs and no stop was due at any of them. As long as no metric is
  a NaN, an epoch improves exactly when its metric is strictly below every earlier
  metric. In particular, with patience 3 and the metrics 1.0, 0.9, 0.95, 0.95, 0.95
  the loop is left in epoch 4; the checkpoint was written twice, for the baseline and
  in epoch 1, and holds the weights of epoch 1, whose metric 0.9 is the best. And with
  patience 2 and the metrics 1.0, nan, 0.5, 0.6, 0.6 the loop is left in epoch 4 with
  best epoch 2: the NaN of epoch 1 is below nothing and nothing is below it, and the
  best it is compared with stays 1.0.
\<close>

theorem train_stops_at_first_due_epoch:
  "(let s = snd (train E model dataset log_file run_id max_epochs patience save_dir aml_run st);
        m = valid_metric_at E model dataset (weights st)
    in (stopped s \<longrightarrow>
          1 \<le> epoch s \<and> epoch s \<le> max_epochs
          \<and> stop_due m patience (nat (epoch s))
          \<and> (\<forall>e<nat (epoch s). \<not> stop_due m patience e)
          \<and> best_valid_epoch s = int (best_epoch_before m (nat (epoch s)))
          \<and> patience \<le> epoch s - best_valid_epoch s)
       \<and> (\<not> stopped s \<longrightarrow>
          epoch s = max 0 max_epochs
          \<and> (\<forall>e. int e \<le> max_epochs \<longrightarrow> \<not> stop_due m patience e))
       \<and> (\<forall>e. (\<forall>j\<le>e. m j \<noteq> NaN) \<longrightarrow>
                 (improves m e \<longleftrightarrow> (\<forall>j<e. float_lt (m e) (m j)))))
   \<and> map (valid_metric_at (sequence_engine example_metrics) example_model example_dataset
            (weights example_machine)) [0, 1, 2, 3, 4]
       = [Num 1, Num (9 / 10), Num (95 / 100), Num (95 / 100), Num (95 / 100)]
   \<and> snd (train (sequence_engine example_metrics) example_model example_dataset ''run.log''
            ''run'' 10 3 ''out'' False example_machine)
       = \<lparr>weights = 4,
          pickle_files = [''out/run_best.pkl'' \<mapsto> data_to_store example_model example_dataset],
          weight_files = [''out/run_best.pkl'' \<mapsto> 1],
          trace =
            [RunOneEpoch VALIDATION False,
             LogLine ''run.log'' (InitialValidMetric (Num 1)),
             StoredModel ''out/run_best.pkl'',
             LogLine ''run.log'' (EpochHeader 1),
             RunOneEpoch TRAIN True,
             LogLine ''run.log'' (TrainSummary (Num 0) (Num 1) (Num 0)),
             RunOneEpoch VALIDATION False,
             LogLine ''run.log'' (ValidSummary (Num 0) (Num (9 / 10)) (Num 0)),
             LogLine ''run.log'' (BestEpochSoFar (Num (9 / 10)) (Num 1)),
             StoredModel ''out/run_best.pkl'',
             LogLine ''run.log'' (EpochHeader 2),
             RunOneEpoch TRAIN True,
             LogLine ''run.log'' (TrainSummary (Num 0) (Num (9 / 10)) (Num 0)),
             RunOneEpoch VALIDATION False,
             LogLine ''run.log'' (ValidSummary (Num 0) (Num (95 / 100)) (Num 0)),
             LogLine ''run.log'' (EpochHeader 3),
             RunOneEpoch TRAIN True,
             LogLine ''run.log'' (TrainSummary (Num 0) (Num (95 / 100)) (Num 0)),
             RunOneEpoch VALIDATION False,
             LogLine ''run.log'' (ValidSummary (Num 0) (Num (95 / 100)) (Num 0)),
             LogLine ''run.log'' (EpochHeader 4),
             RunOneEpoch TRAIN True,
             LogLine ''run.log'' (TrainSummary (Num 0) (Num (95 / 100)) (Num 0)),
             RunOneEpoch VALIDATION False,
             LogLine ''run.log'' (ValidSummary (Num 0) (Num (95 / 100)) (Num 0)),
             LogLine ''run.log'' (StoppingTraining 3),
             LogLine ''run.log'' (TrainingTook (Num (9 / 10)))],
          best_valid_metric = Num (9 / 10), best_valid_epoch = 1, epoch = 4, stopped = True\<rparr>
   \<and> map (valid_metric_at (sequence_engine nan_epoch_metrics) example_model example_dataset
            (weights example_machine)) [0, 1, 2, 3, 4]
       = [Num 1, NaN, Num (1 / 2), Num (6 / 10), Num (6 / 10)]
   \<and> stopped (snd (train (sequence_engine nan_epoch_metrics) example_model example_dataset
            ''run.log'' ''run'' 10 2 ''out'' False example_machine))
   \<and> epoch (snd (train (sequence_engine nan_epoch_metrics) example_model example_dataset
            ''run.log'' ''run'' 10 2 ''out'' False example_machine)) = 4
   \<and> best_valid_epoch (snd (train (sequence_engine nan_epoch_metrics) example_model
            example_dataset ''run.log'' ''run'' 10 2 ''out'' False example_machine)) = 2
   \<and> best_valid_metric (snd (train (sequence_engine nan_epoch_metrics) example_model
            example_dataset ''run.log'' ''run'' 10 2 ''out'' False example_machine)) = Num (1 / 2)"
proof -
  let ?s = "snd (train E model dataset log_file run_id max_epochs patience save_dir aml_run st)"
  let ?m = "valid_metric_at E model dataset (weights st)"
  let ?n = "nat (epoch ?s)"
  let ?b = "nat (best_valid_epoch ?s)"
  have inv: "train_inv ?m (weights_after E model dataset (weights st)) patience
               (os_path_join save_dir (run_id @ ''_best.pkl'')) (data_to_store model dataset)
               (nat max_epochs) ?s"
    by (rule train_inv_final)
  from inv have b0: "0 \<le> best_valid_epoch ?s" and be: "best_valid_epoch ?s \<le> epoch ?s"
    and ek: "epoch ?s \<le> int (nat max_epochs)"
    and run_all: "\<not> stopped ?s \<longrightarrow> epoch ?s = int (nat max_epochs)"
    and best: "best_valid_metric ?s = ?m ?b" and imp: "improves ?m ?b"
    and later: "\<forall>j. ?b < j \<and> j \<le> ?n \<longrightarrow> \<not> improves ?m j"
    and due: "stopped ?s \<longrightarrow> stop_due ?m patience ?n"
    and before: "\<forall>e<?n. \<not> stop_due ?m patience e"
    and notdue: "\<not> stopped ?s \<longrightarrow> \<not> stop_due ?m patience ?n"
    unfolding train_inv_def by blast+
  have stop: "1 \<le> epoch ?s \<and> epoch ?s \<le> max_epochs
          \<and> stop_due ?m patience ?n
          \<and> (\<forall>e<?n. \<not> stop_due ?m patience e)
          \<and> best_valid_epoch ?s = int (best_epoch_before ?m ?n)
          \<and> patience \<le> epoch ?s - best_valid_epoch ?s" if st: "stopped ?s"
  proof -
    from due st have sd: "stop_due ?m patience ?n" by simp
    then have n1: "1 \<le> ?n" and nimp: "\<not> improves ?m ?n"
      and pat: "patience \<le> int ?n - int (best_epoch_before ?m ?n)"
      by (simp_all add: stop_due_def)
    have e1: "1 \<le> epoch ?s" using n1 by simp
    have em: "epoch ?s \<le> max_epochs" using ek e1 by (simp split: if_splits)
    have bn: "?b \<noteq> ?n" using imp nimp by auto
    obtain k where k: "?n = Suc k" using n1 by (cases ?n) simp_all
    have bk: "?b \<le> k" using bn b0 be k by simp
    have between: "\<And>j. ?b < j \<Longrightarrow> j \<le> k \<Longrightarrow> \<not> improves ?m j"
      using later k by simp
    have "best_epoch_before ?m (Suc k) = ?b"
      using bk imp between by (rule best_epoch_before_eq)
    then have beb: "best_epoch_before ?m ?n = ?b" using k by simp
    have bv: "best_valid_epoch ?s = int (best_epoch_before ?m ?n)"
      using beb b0 by simp
    have "patience \<le> epoch ?s - best_valid_epoch ?s"
      using pat bv e1 by simp
    with e1 em sd before bv show ?thesis by blast
  qed
  have nostop: "epoch ?s = max 0 max_epochs
          \<and> (\<forall>e. int e \<le> max_epochs \<longrightarrow> \<not> stop_due ?m patience e)" if ns: "\<not> stopped ?s"
  proof -
    from run_all ns have ep: "epoch ?s = int (nat max_epochs)" by simp
    then have "epoch ?s = max 0 max_epochs" by (simp add: max_def)
    moreover have "\<not> stop_due ?m patience e" if "int e \<le> max_epochs" for e
    proof -
      from that ep have "e \<le> ?n" by simp
      then show ?thesis
        using before notdue ns by (cases "e = ?n") auto
    qed
    ultimately show ?thesis by blast
  qed
  have plain: "\<forall>e. (\<forall>j\<le>e. ?m j \<noteq> NaN) \<longrightarrow>
                 (improves ?m e \<longleftrightarrow> (\<forall>j<e. float_lt (?m e) (?m j)))"
    using improves_iff_below_all by blast
  have general: "(stopped ?s \<longrightarrow>
          1 \<le> epoch ?s \<and> epoch ?s \<le> max_epochs
          \<and> stop_due ?m patience ?n
          \<and> (\<forall>e<?n. \<not> stop_due ?m patience e)
          \<and> best_valid_epoch ?s = int (best_epoch_before ?m ?n)
          \<and> patience \<le> epoch ?s - best_valid_epoch ?s)
       \<and> (\<not> stopped ?s \<longrightarrow>
          epoch ?s = max 0 max_epochs
          \<and> (\<forall>e. int e \<le> max_epochs \<longrightarrow> \<not> stop_due ?m patience e))
       \<and> (\<forall>e. (\<forall>j\<le>e. ?m j \<noteq> NaN) \<longrightarrow>
                 (improves ?m e \<longleftrightarrow> (\<forall>j<e. float_lt (?m e) (?m j))))"
    using stop nostop plain by blast
  have nan_stopped: "stopped (snd (train (sequence_engine nan_epoch_metrics) example_model
            example_dataset ''run.log'' ''run'' 10 2 ''out'' False example_machine))"
    by (simp add: nan_epoch_run)
  show ?thesis
    unfolding Let_def
    using general example_metric_values example_run nan_epoch_metric_values
      nan_epoch_run(1,2,3) nan_stopped
    by blast
qed

text \<open>
  The general statement on the small run: the loop was left, so the stop was due at
  its epoch 4 and at none of the epochs 1, 2, 3, and the best epoch before 4 is 1.
\<close>

theorem train_stops_at_first_due_epoch_witness:
  "stopped (snd (train (sequence_engine example_metrics) example_model example_dataset
                   ''run.log'' ''run'' 10 3 ''out'' False example_machine))
   \<and> epoch (snd (train (sequence_engine example_metrics) example_model example_dataset
                   ''run.log'' ''run'' 10 3 ''out'' False example_machine)) = 4
   \<and> stop_due (valid_metric_at (sequence_engine example_metrics) example_model example_dataset
                 (weights example_machine)) 3 4
   \<and> \<not> stop_due (valid_metric_at (sequence_engine example_metrics) example_model example_dataset
                 (weights example_machine)) 3 1
   \<and> \<not> stop_due (valid_metric_at (sequence_engine example_metrics) example_model example_dataset
                 (weights example_machine)) 3 2
   \<and> \<not> stop_due (valid_metric_at (sequence_engine example_metrics) example_model example_dataset
                 (weights example_machine)) 3 3
   \<and> best_epoch_before (valid_metric_at (sequence_engine example_metrics) example_model
                 example_dataset (weights example_machine)) 4 = 1"
proof -
  let ?s = "snd (train (sequence_engine example_metrics) example_model example_dataset
                   ''run.log'' ''run'' 10 3 ''out'' False example_machine)"
  let ?m = "valid_metric_at (sequence_engine example_metrics) example_model example_dataset
                 (weights example_machine)"
  have st: "stopped ?s" and ep: "epoch ?s = 4" and e: "nat (epoch ?s) = 4"
    and b: "best_valid_epoch ?s = 1"
    by (simp_all add: example_run)
  note t = train_stops_at_first_due_epoch[of "sequence_engine example_metrics" example_model
      example_dataset "''run.log''" "''run''" 10 3 "''out''" False example_machine,
      unfolded Let_def e]
  from t st have due: "stop_due ?m 3 4" and before: "\<forall>e<4. \<not> stop_due ?m 3 e"
    and beb: "best_valid_epoch ?s = int (best_epoch_before ?m 4)"
    by blast+
  from before have "\<not> stop_due ?m 3 1" "\<not> stop_due ?m 3 2" "\<not> stop_due ?m 3 3"
    by simp_all
  moreover from beb b have "best_epoch_before ?m 4 = 1"
    by simp
  ultimately show ?thesis
    using st ep due by blast
qed

text \<open>
  C4. The baseline. \<open>train\<close> first makes one validation pass, logs its metric, and
  saves the checkpoint under \<open>os.path.join(save_dir, run_id + "_best.pkl")\<close>, which is
  \<open>{save_dir}/{run_id}_best.pkl\<close> for a directory name that is not empty and does not end
  with a separator and a run identifier that does not start with one; the metric is
  the best metric and 0 the best epoch when the loop starts. Whatever follows in the
  trace starts with the header of epoch 1 and its training pass, so exactly one
  validation pass and the first save precede every training pass. \<open>train\<close> returns
  that path, and in the final state, however the loop ended, the path holds the
  checkpoint record and the weights of the best epoch (those of the baseline when no
  epoch improved on it); the best metric is the baseline metric or strictly below
  it. The collaborators are taken to return; an exception of theirs is not modelled.
\<close>

theorem train_baseline_checkpoint:
  "(let r = train E model dataset log_file run_id max_epochs patience save_dir aml_run st;
        save_file = os_path_join save_dir (run_id @ ''_best.pkl'');
        start = train_init E model dataset log_file save_file st;
        m0 = pass_metric E model dataset VALIDATION False (weights st)
    in fst r = save_file
       \<and> (save_dir \<noteq> [] \<and> last save_dir \<noteq> CHR ''/'' \<and> (run_id = [] \<or> hd run_id \<noteq> CHR ''/'')
            \<longrightarrow> fst r = save_dir @ ''/'' @ run_id @ ''_best.pkl'')
       \<and> snd r = train_loop E model dataset log_file save_file patience aml_run [1..max_epochs] start
       \<and> trace start = trace st @ [RunOneEpoch VALIDATION False,
                                    LogLine log_file (InitialValidMetric m0),
                                    StoredModel save_file]
       \<and> best_valid_metric start = m0 \<and> best_valid_epoch start = 0
       \<and> pickle_files start save_file = Some (data_to_store model dataset)
       \<and> weight_files start save_file
            = Some (pass_weights E model dataset VALIDATION False (weights st))
       \<and> (\<exists>rest. trace (snd r) = trace start @ rest
                 \<and> (rest = [] \<or>
                     (\<exists>rest'. rest = LogLine log_file (EpochHeader 1)
                                      # RunOneEpoch TRAIN True # rest')))
       \<and> pickle_files (snd r) (fst r) = Some (data_to_store model dataset)
       \<and> weight_files (snd r) (fst r)
            = Some (weights_after E model dataset (weights st) (nat (best_valid_epoch (snd r))))
       \<and> (best_valid_metric (snd r) = m0 \<or> float_lt (best_valid_metric (snd r)) m0))"
proof -
  let ?save_file = "os_path_join save_dir (run_id @ ''_best.pkl'')"
  let ?r = "train E model dataset log_file run_id max_epochs patience save_dir aml_run st"
  let ?start = "train_init E model dataset log_file ?save_file st"
  have f: "fst ?r = ?save_file"
    and sn: "snd ?r = train_loop E model dataset log_file ?save_file patience aml_run
                        [1..max_epochs] ?start"
    by (simp_all add: train_def Let_def)
  have inv: "train_inv (valid_metric_at E model dataset (weights st))
               (weights_after E model dataset (weights st)) patience
               ?save_file (data_to_store model dataset) (nat max_epochs) (snd ?r)"
    by (rule train_inv_final)
  then have files: "pickle_files (snd ?r) ?save_file = Some (data_to_store model dataset)"
    "weight_files (snd ?r) ?save_file
       = Some (weights_after E model dataset (weights st) (nat (best_valid_epoch (snd ?r))))"
    unfolding train_inv_def by blast+
  obtain rest where rest: "trace (snd ?r) = trace ?start @ rest"
    and shape: "rest = [] \<or> (\<exists>rest'. [1..max_epochs] \<noteq> [] \<and>
                 rest = LogLine log_file (EpochHeader (hd [1..max_epochs]))
                          # RunOneEpoch TRAIN True # rest')"
    unfolding sn using train_loop_trace_head by blast
  have shape': "rest = [] \<or> (\<exists>rest'. rest = LogLine log_file (EpochHeader 1)
                                      # RunOneEpoch TRAIN True # rest')"
    using shape hd_upto_1 by auto
  have r0: "snd (train E model dataset log_file run_id 0 patience save_dir aml_run st) = ?start"
    by (simp add: train_def Let_def)
  have le: "best_valid_metric (snd ?r) = pass_metric E model dataset VALIDATION False (weights st)
            \<or> float_lt (best_valid_metric (snd ?r))
                 (pass_metric E model dataset VALIDATION False (weights st))"
  proof (cases "0 \<le> max_epochs")
    case True
    then have "best_valid_metric (snd ?r) = best_valid_metric ?start
               \<or> float_lt (best_valid_metric (snd ?r)) (best_valid_metric ?start)"
      using train_best_antimono[of 0 max_epochs E model dataset log_file run_id patience
          save_dir aml_run st] unfolding r0 by simp
    then show ?thesis by (simp add: train_init_fields)
  next
    case False
    then have "snd ?r = ?start" unfolding sn by simp
    then show ?thesis by (simp add: train_init_fields)
  qed
  show ?thesis
    unfolding Let_def f
    using sn files rest shape' le os_path_join_plain[of save_dir run_id]
    by (auto simp: train_init_fields)
qed

text \<open>
  On the small run the directory is \<open>out\<close> and the run identifier \<open>run\<close>: the path is
  \<open>out/run_best.pkl\<close>, it holds the record and the weights of epoch 1, and the trace
  starts with the validation pass, the log line, the save, and epoch 1.
\<close>

theorem train_baseline_checkpoint_witness:
  "''out'' \<noteq> [] \<and> last ''out'' \<noteq> CHR ''/'' \<and> hd ''run'' \<noteq> CHR ''/''
   \<and> fst (train (sequence_engine example_metrics) example_model example_dataset ''run.log''
            ''run'' 10 3 ''out'' False example_machine) = ''out/run_best.pkl''
   \<and> pickle_files (snd (train (sequence_engine example_metrics) example_model example_dataset
            ''run.log'' ''run'' 10 3 ''out'' False example_machine)) ''out/run_best.pkl''
       = Some (data_to_store example_model example_dataset)
   \<and> weight_files (snd (train (sequence_engine example_metrics) example_model example_dataset
            ''run.log'' ''run'' 10 3 ''out'' False example_machine)) ''out/run_best.pkl''
       = Some 1
   \<and> take 5 (trace (snd (train (sequence_engine example_metrics) example_model example_dataset
            ''run.log'' ''run'' 10 3 ''out'' False example_machine)))
       = [RunOneEpoch VALIDATION False,
          LogLine ''run.log'' (InitialValidMetric (Num 1)),
          StoredModel ''out/run_best.pkl'',
          LogLine ''run.log'' (EpochHeader 1),
          RunOneEpoch TRAIN True]"
proof -
  let ?r = "train (sequence_engine example_metrics) example_model example_dataset ''run.log''
            ''run'' 10 3 ''out'' False example_machine"
  have h: "''out'' \<noteq> [] \<and> last ''out'' \<noteq> CHR ''/'' \<and> (''run'' = [] \<or> hd ''run'' \<noteq> CHR ''/'')"
    by simp
  note t = train_baseline_checkpoint[of "sequence_engine example_metrics" example_model
      example_dataset "''run.log''" "''run''" 10 3 "''out''" False example_machine,
      unfolded Let_def]
  from t h have path: "fst ?r = ''out'' @ ''/'' @ ''run'' @ ''_best.pkl''"
    by blast
  from t have pf: "pickle_files (snd ?r) (fst ?r) = Some (data_to_store example_model example_dataset)"
    and wf: "weight_files (snd ?r) (fst ?r)
              = Some (weights_after (sequence_engine example_metrics) example_model example_dataset
                        (weights example_machine) (nat (best_valid_epoch (snd ?r))))"
    by blast+
  have tr: "take 5 (trace (snd ?r))
       = [RunOneEpoch VALIDATION False,
          LogLine ''run.log'' (InitialValidMetric (Num 1)),
          StoredModel ''out/run_best.pkl'',
          LogLine ''run.log'' (EpochHeader 1),
          RunOneEpoch TRAIN True]"
    by (simp add: example_run)
  have b: "nat (best_valid_epoch (snd ?r)) = 1"
    by (simp add: example_run)
  have wf1: "weight_files (snd ?r) (fst ?r) = Some 1"
    unfolding wf b sequence_engine_weights_after by (simp add: example_machine_def)
  show ?thesis
    using path pf wf1 tr by simp
qed




end
